theory Spec2Isabelle
  imports Complex_Main "HOL-Library.AList"
begin

section \<open>Values of the host language\<close>

text \<open>
  The node is TypeScript: its payloads are \<^verbatim>\<open>IDataObject\<close>s, plain JavaScript objects.
  A Number is \<open>NaN\<close>, an infinity or a finite value; a finite value is kept exactly, as
  the rational it denotes (a literal \<^verbatim>\<open>29.99\<close> and the text \<^verbatim>\<open>"29.99"\<close> parsed denote the same
  Number, the double nearest to 2999/100; rounding, underflow and overflow of doubles are not
  modelled, and the two zeros are one). A string is a list of code units, of which only the
  ASCII ones are ever told apart by the code. An object is the list of its own properties
  in insertion order; reading a property that is missing gives \<open>JUndefined\<close>.
\<close>

datatype jsnum = NaN | Fin rat | PosInf | NegInf

datatype json =
    JUndefined
  | JNull
  | JBool bool
  | JNum jsnum
  | JStr string
  | JArr "json list"
  | JObj "(string \<times> json) list"

type_synonym IDataObject = "(string \<times> json) list"

text \<open>
  \<^verbatim>\<open>obj[key]\<close> read from the own properties, and \<^verbatim>\<open>obj.key = value\<close> for a key written in
  the code (an existing key keeps its place).
\<close>

definition getProp :: "IDataObject \<Rightarrow> string \<Rightarrow> json" where
  "getProp obj key = (case map_of obj key of None \<Rightarrow> JUndefined | Some v \<Rightarrow> v)"

definition setProp :: "IDataObject \<Rightarrow> string \<Rightarrow> json \<Rightarrow> IDataObject" where
  "setProp obj key v = AList.update key v obj"

text \<open>
  \<^verbatim>\<open>obj[key] = value\<close> where \<open>key\<close> is computed and \<open>obj\<close> began as \<^verbatim>\<open>{}\<close>: under the key
  \<^verbatim>\<open>__proto__\<close> the assignment reaches the setter that \<^verbatim>\<open>Object.prototype\<close> holds, which
  replaces the prototype (by an object) or does nothing (for a primitive), and in neither case
  gives \<open>obj\<close> a property of its own. Own properties are all that \<^verbatim>\<open>Object.keys\<close>,
  \<^verbatim>\<open>Object.entries\<close> and the JSON sent on the wire show of an object.
\<close>

definition assignProp :: "IDataObject \<Rightarrow> string \<Rightarrow> json \<Rightarrow> IDataObject" where
  "assignProp obj key v = (if key = ''__proto__'' then obj else setProp obj key v)"

text \<open>Truthiness, as \<^verbatim>\<open>if (x)\<close>, \<^verbatim>\<open>!x\<close> and \<^verbatim>\<open>x || d\<close> test it.\<close>

fun truthyNum :: "jsnum \<Rightarrow> bool" where
  "truthyNum NaN = False"
| "truthyNum (Fin q) = (q \<noteq> 0)"
| "truthyNum PosInf = True"
| "truthyNum NegInf = True"

fun truthy :: "json \<Rightarrow> bool" where
  "truthy JUndefined = False"
| "truthy JNull = False"
| "truthy (JBool b) = b"
| "truthy (JNum n) = truthyNum n"
| "truthy (JStr s) = (s \<noteq> [])"
| "truthy (JArr xs) = True"
| "truthy (JObj ps) = True"

text \<open>\<^verbatim>\<open>x || d\<close> on Numbers and on values.\<close>

definition orNum :: "jsnum \<Rightarrow> jsnum \<Rightarrow> jsnum" where
  "orNum x d = (if truthyNum x then x else d)"

definition orElse :: "json \<Rightarrow> json \<Rightarrow> json" where
  "orElse x d = (if truthy x then x else d)"

text \<open>The errors the code throws, by class, with the constructor's argument.\<close>

datatype error =
    NodeOperationError string
  | NodeApiError IDataObject
  | Error string
  | RangeError string
  | TypeError string

section \<open>Phone numbers (utils)\<close>

definition isDigit :: "char \<Rightarrow> bool" where
  "isDigit c = (c \<in> set ''0123456789'')"

text \<open>The character class \<^verbatim>\<open>[^\d+]\<close> is the complement of \<open>keptChar\<close>.\<close>

definition keptChar :: "char \<Rightarrow> bool" where
  "keptChar c = (isDigit c \<or> c = CHR ''+'')"

definition startsWith :: "string \<Rightarrow> string \<Rightarrow> bool" where
  "startsWith s p = (take (length p) s = p)"

definition formatPhoneNumber :: "string \<Rightarrow> string" where
  "formatPhoneNumber phone =
     (if phone = [] then phone
      else let digits = filter keptChar phone
           in if startsWith digits ''+'' then digits else ''+'' @ digits)"

text \<open>The regular expression \<^verbatim>\<open>/^\+[1-9]\d{1,14}$/\<close>, tested against the whole string.\<close>

definition isValidE164 :: "string \<Rightarrow> bool" where
  "isValidE164 phone =
     (case phone of
        p # d # rest \<Rightarrow>
          p = CHR ''+'' \<and> d \<in> set ''123456789'' \<and> list_all isDigit rest
          \<and> 1 \<le> length rest \<and> length rest \<le> 14
      | _ \<Rightarrow> False)"

definition invalidPhoneMessage :: "string \<Rightarrow> string" where
  \<open>invalidPhoneMessage phone =
     ''Invalid phone number format: "'' @ phone
       @ ''". Phone numbers must be in E.164 format (e.g., +19148440001).''\<close>

definition validatePhoneNumber :: "string \<Rightarrow> error + unit" where
  "validatePhoneNumber phone =
     (let formatted = formatPhoneNumber phone
      in if \<not> isValidE164 formatted
         then Inl (NodeOperationError (invalidPhoneMessage phone))
         else Inr ())"

text \<open>
  Every phone-bearing operation opens with the same two statements (subscriber, message,
  custom event, custom attribute, ecommerce):
  \<^verbatim>\<open>const phone = formatPhoneNumber(this.getNodeParameter('phone', i) as string);\<close>
  \<^verbatim>\<open>validatePhoneNumber(phone, this);\<close>
  \<open>phoneParameter\<close> is that pair, applied to the parameter's value: it yields the
  \<^verbatim>\<open>phone\<close> the request is built from, or the error thrown.
\<close>

definition phoneParameter :: "string \<Rightarrow> error + string" where
  "phoneParameter raw =
     (let phone = formatPhoneNumber raw
      in case validatePhoneNumber phone of
           Inl e \<Rightarrow> Inl e
         | Inr _ \<Rightarrow> Inr phone)"

section \<open>The runtime and the library, as parameters\<close>

text \<open>
  The parts of the JavaScript runtime and of the \<^verbatim>\<open>n8n-workflow\<close> library that the node
  calls and this development does not define are taken as parameters:
  \<^item> \<open>toStringOther\<close>: \<^verbatim>\<open>ToString\<close> of a Number, an array or an object;
  \<^item> \<open>stringToNumber\<close>: \<^verbatim>\<open>ToNumber\<close> of a string;
  \<^item> \<open>nodeApiErrorMessage\<close>: the message \<^verbatim>\<open>NodeApiError\<close>'s constructor derives from the
    upstream error it wraps;
  \<^item> \<open>operationErrorMessage\<close>: the message \<^verbatim>\<open>NodeOperationError\<close>'s constructor derives
    from an argument that is not a string;
  \<^item> \<open>typeErrorMessage\<close>, \<open>rangeErrorMessage\<close>: the engine's texts for its own errors;
  \<^item> \<open>dateParseOther\<close>: \<^verbatim>\<open>Date.parse\<close> on a string that is not in the UTC date-time
    format fixed below (\<open>None\<close> for \<open>NaN\<close>).
\<close>

record host =
  toStringOther :: "json \<Rightarrow> string"
  stringToNumber :: "string \<Rightarrow> jsnum"
  nodeApiErrorMessage :: "IDataObject \<Rightarrow> string"
  operationErrorMessage :: "json \<Rightarrow> string"
  typeErrorMessage :: string
  rangeErrorMessage :: string
  dateParseOther :: "string \<Rightarrow> int option"

fun ToString :: "host \<Rightarrow> json \<Rightarrow> string" where
  "ToString h (JStr s) = s"
| "ToString h JUndefined = ''undefined''"
| "ToString h JNull = ''null''"
| "ToString h (JBool b) = (if b then ''true'' else ''false'')"
| "ToString h v = toStringOther h v"

text \<open>
  The own properties of an array: its elements under their indices, written in decimal, and
  its \<^verbatim>\<open>length\<close>.
\<close>

definition digitChar :: "nat \<Rightarrow> char" where
  "digitChar n = ''0123456789'' ! (n mod 10)"

function natString :: "nat \<Rightarrow> string" where
  "natString n = (if n < 10 then [digitChar n] else natString (n div 10) @ [digitChar n])"
  by pat_completeness auto
termination
  by (relation "measure (\<lambda>n. n)") auto

declare natString.simps [simp del]

definition arrayProps :: "json list \<Rightarrow> IDataObject" where
  "arrayProps xs =
     zip (map natString [0..<length xs]) xs @ [(''length'', JNum (Fin (of_nat (length xs))))]"

text \<open>
  Reading a property of a value that should be an object (an element of
  \<^verbatim>\<open>itemsInput.items\<close>, a response): \<^verbatim>\<open>undefined\<close> and \<^verbatim>\<open>null\<close> have no properties and the
  read throws; an array has its elements and its length; a string, a Number or a boolean has
  no property that is an object or an array, and none under the names the code reads.
\<close>

fun propertiesOf :: "host \<Rightarrow> json \<Rightarrow> error + IDataObject" where
  "propertiesOf h (JObj ps) = Inr ps"
| "propertiesOf h JUndefined = Inl (TypeError (typeErrorMessage h))"
| "propertiesOf h JNull = Inl (TypeError (typeErrorMessage h))"
| "propertiesOf h (JArr xs) = Inr (arrayProps xs)"
| "propertiesOf h v = Inr []"

text \<open>
  A host for closed examples. Its answers are arbitrary: the examples say where they reach
  one of them.
\<close>

definition exampleHost :: host where
  "exampleHost =
     \<lparr> toStringOther = (\<lambda>v. ''[object Object]''),
       stringToNumber = (\<lambda>s. NaN),
       nodeApiErrorMessage = (\<lambda>raw. ''The service returned an error''),
       operationErrorMessage = (\<lambda>v. ''[object Object]''),
       typeErrorMessage = ''Cannot read properties of null'',
       rangeErrorMessage = ''Invalid time value'',
       dateParseOther = (\<lambda>s. None) \<rparr>"

section \<open>Cleaning a request body (utils)\<close>

definition isArray :: "json \<Rightarrow> bool" where
  "isArray v = (case v of JArr _ \<Rightarrow> True | _ \<Rightarrow> False)"

text \<open>\<^verbatim>\<open>typeof value === 'object'\<close> holds of objects, of arrays and of \<^verbatim>\<open>null\<close>.\<close>

definition typeofObject :: "json \<Rightarrow> bool" where
  "typeofObject v = (case v of JNull \<Rightarrow> True | JArr _ \<Rightarrow> True | JObj _ \<Rightarrow> True | _ \<Rightarrow> False)"

lemma size_nested_object:
  "(key, JObj nested) \<in> set obj \<Longrightarrow>
     size_list (size_prod (\<lambda>_. 0) size) nested < size_list (size_prod (\<lambda>_. 0) size) obj"
  by (induction obj) auto

text \<open>
  \<open>cleanObject\<close> walks \<^verbatim>\<open>Object.entries(obj)\<close> in order and assigns the entries it keeps
  to a fresh object \<^verbatim>\<open>cleaned\<close>, under their computed keys; the three branches are the source's
  \<^verbatim>\<open>if / else if / else if\<close>.
\<close>

function cleanObject :: "IDataObject \<Rightarrow> IDataObject" where
  "cleanObject obj =
     fold (\<lambda>(key, value) cleaned.
             if value \<noteq> JUndefined \<and> value \<noteq> JNull \<and> value \<noteq> JStr [] then
               (if typeofObject value \<and> \<not> isArray value then
                  (case value of
                     JObj nested \<Rightarrow>
                       (let cleanedNested = cleanObject nested
                        in if length cleanedNested > 0
                           then assignProp cleaned key (JObj cleanedNested)
                           else cleaned)
                   | _ \<Rightarrow> cleaned)
                else if isArray value \<and> (case value of JArr xs \<Rightarrow> length xs > 0 | _ \<Rightarrow> False)
                  then assignProp cleaned key value
                else if \<not> isArray value then assignProp cleaned key value
                else cleaned)
             else cleaned)
          obj []"
  by pat_completeness auto
termination
  by (relation "measure (size_list (size_prod (\<lambda>_. 0) size))")
    (auto simp add: size_nested_object)

declare cleanObject.simps [simp del]

text \<open>What one pass of the loop body assigns for a value, if anything (used in the proofs).\<close>

definition keptValue :: "json \<Rightarrow> json option" where
  "keptValue v =
     (case v of
        JUndefined \<Rightarrow> None
      | JNull \<Rightarrow> None
      | JStr s \<Rightarrow> if s = [] then None else Some v
      | JObj nested \<Rightarrow> if cleanObject nested = [] then None else Some (JObj (cleanObject nested))
      | JArr xs \<Rightarrow> if xs = [] then None else Some v
      | _ \<Rightarrow> Some v)"

section \<open>Product line items (utils)\<close>

text \<open>White space that \<^verbatim>\<open>parseInt\<close> and \<^verbatim>\<open>parseFloat\<close> skip in front (the 8-bit part of it).\<close>

definition isWhiteSpace :: "char \<Rightarrow> bool" where
  "isWhiteSpace c =
     (c \<in> set [CHR 0x09, CHR 0x0A, CHR 0x0B, CHR 0x0C, CHR 0x0D, CHR 0x20, CHR 0xA0])"

definition digitsValue :: "string \<Rightarrow> nat" where
  "digitsValue ds = fold (\<lambda>c n. 10 * n + (of_char c - 48)) ds 0"

text \<open>
  \<^verbatim>\<open>parseInt(s, 10)\<close>: skip white space, take a sign, then the longest run of digits;
  \<open>NaN\<close> when the run is empty.
\<close>

definition parseInt10 :: "string \<Rightarrow> jsnum" where
  "parseInt10 inputString =
     (let S = dropWhile isWhiteSpace inputString;
          sign = (if startsWith S ''-'' then - 1 else 1 :: rat);
          R = (if startsWith S ''+'' \<or> startsWith S ''-'' then tl S else S);
          Z = takeWhile isDigit R
      in if Z = [] then NaN else Fin (sign * of_nat (digitsValue Z)))"

text \<open>
  The exponent part \<^verbatim>\<open>[eE][+-]?[0-9]+\<close> of a decimal literal, \<open>0\<close> when there is none (an
  \<^verbatim>\<open>e\<close> that no digit follows is not part of the literal).
\<close>

definition exponentPart :: "string \<Rightarrow> int" where
  "exponentPart r =
     (if startsWith r ''e'' \<or> startsWith r ''E'' then
        (let t = tl r;
             neg = startsWith t ''-'';
             u = (if startsWith t ''+'' \<or> startsWith t ''-'' then tl t else t);
             ds = takeWhile isDigit u
         in if ds = [] then 0
            else if neg then - int (digitsValue ds) else int (digitsValue ds))
      else 0)"

definition scale10 :: "rat \<Rightarrow> int \<Rightarrow> rat" where
  "scale10 m e = (if 0 \<le> e then m * 10 ^ nat e else m / 10 ^ nat (- e))"

text \<open>
  \<^verbatim>\<open>parseFloat(s)\<close>: skip white space, then the value of the longest prefix that is a
  \<^verbatim>\<open>StrDecimalLiteral\<close> (a sign, then \<^verbatim>\<open>Infinity\<close> or digits with an optional fraction and
  exponent); \<open>NaN\<close> when there is no such prefix.
\<close>

definition parseFloat :: "string \<Rightarrow> jsnum" where
  "parseFloat inputString =
     (let t = dropWhile isWhiteSpace inputString;
          neg = startsWith t ''-'';
          u = (if startsWith t ''+'' \<or> startsWith t ''-'' then tl t else t)
      in if startsWith u ''Infinity'' then (if neg then NegInf else PosInf)
         else
           (let ip = takeWhile isDigit u;
                r1 = dropWhile isDigit u;
                hasDot = startsWith r1 ''.'';
                fp = (if hasDot then takeWhile isDigit (tl r1) else []);
                r2 = (if hasDot then dropWhile isDigit (tl r1) else r1)
            in if ip = [] \<and> fp = [] then NaN
               else
                 (let mantissa = of_nat (digitsValue (ip @ fp)) / 10 ^ length fp;
                      v = scale10 mantissa (exponentPart r2)
                  in Fin (if neg then - v else v))))"

text \<open>
  The body of the loop of \<open>parseProductItems\<close>: the object literal, then the four
  conditional assignments.
\<close>

definition productItem :: "host \<Rightarrow> IDataObject \<Rightarrow> IDataObject" where
  "productItem h item =
     (let productItem0 =
            [(''productId'', getProp item ''productId''),
             (''name'', getProp item ''name''),
             (''price'', JObj
                [(''value'', JNum (orNum (parseFloat (ToString h (getProp item ''price''))) (Fin 0))),
                 (''currency'', orElse (getProp item ''currency'') (JStr ''USD''))]),
             (''quantity'',
                JNum (orNum (parseInt10 (ToString h (getProp item ''quantity''))) (Fin 1)))];
          productItem1 =
            (if truthy (getProp item ''productVariantId'')
             then setProp productItem0 ''productVariantId'' (getProp item ''productVariantId'')
             else productItem0);
          productItem2 =
            (if truthy (getProp item ''productImage'')
             then setProp productItem1 ''productImage'' (getProp item ''productImage'')
             else productItem1);
          productItem3 =
            (if truthy (getProp item ''productUrl'')
             then setProp productItem2 ''productUrl'' (getProp item ''productUrl'')
             else productItem2)
      in if truthy (getProp item ''category'')
         then setProp productItem3 ''category''
                (if isArray (getProp item ''category'') then getProp item ''category''
                 else JArr [getProp item ''category''])
         else productItem3)"

fun productItemsLoop :: "host \<Rightarrow> json list \<Rightarrow> IDataObject list \<Rightarrow> error + IDataObject list" where
  "productItemsLoop h [] items = Inr items"
| "productItemsLoop h (item # rest) items =
     (case propertiesOf h item of
        Inl e \<Rightarrow> Inl e
      | Inr ps \<Rightarrow> productItemsLoop h rest (items @ [productItem h ps]))"

definition parseProductItems :: "host \<Rightarrow> json \<Rightarrow> error + IDataObject list" where
  "parseProductItems h itemsInput =
     (if \<not> truthy itemsInput then Inr []
      else
        (let productItems =
               (case itemsInput of JObj ps \<Rightarrow> getProp ps ''items'' | _ \<Rightarrow> JUndefined)
         in case productItems of
              JArr xs \<Rightarrow> productItemsLoop h xs []
            | _ \<Rightarrow> Inr []))"

section \<open>Transport\<close>

text \<open>
  \<^verbatim>\<open>this.helpers.request(options)\<close> is the one effect of the transport: it takes the state of
  the world outside to a new one and either resolves with the parsed response or rejects
  with the upstream error (any answer outside 2xx, or no answer). Every exchange is
  recorded, so that theorems can speak about the requests that were sent. The fields of
\<^verbatim>\<open>IRequestOptions\<close> are \<^verbatim>\<open>method\<close>, \<^verbatim>\<open>uri\<close>, \<^verbatim>\<open>headers\<close>, \<^verbatim>\<open>qs\<close>, \<^verbatim>\<open>json\<close> and \<^verbatim>\<open>body\<close>.
\<close>

record IRequestOptions =
  reqMethod :: string
  reqUri :: string
  reqHeaders :: "(string \<times> string) list"
  reqQs :: IDataObject
  reqJson :: bool
  reqBody :: "IDataObject option"

record 's world =
  server :: 's
  exchanges :: "(IRequestOptions \<times> (IDataObject + json)) list"

text \<open>The execution context \<^verbatim>\<open>this\<close>: the credentials it hands out and its request helper.\<close>

record 's IExecuteFunctions =
  credentials :: json
  request :: "'s \<Rightarrow> IRequestOptions \<Rightarrow> (IDataObject + json) \<times> 's"

definition BASE_URL :: string where
  "BASE_URL = ''https://api.attentivemobile.com/v1''"

definition attentiveApiRequest ::
  "host \<Rightarrow> 's IExecuteFunctions \<Rightarrow> string \<Rightarrow> string \<Rightarrow> IDataObject \<Rightarrow> IDataObject \<Rightarrow> 's world
     \<Rightarrow> (error + json) \<times> 's world" where
  "attentiveApiRequest h this method endpoint body query w =
     (let apiKey = (case credentials this of JObj c \<Rightarrow> getProp c ''apiKey'' | _ \<Rightarrow> JUndefined)
      in if \<not> truthy apiKey then (Inl (NodeOperationError ''No API key provided''), w)
         else
           (let options0 =
                  \<lparr> reqMethod = method,
                    reqUri = BASE_URL @ endpoint,
                    reqHeaders = [(''Authorization'', ''Bearer '' @ ToString h apiKey),
                               (''Content-Type'', ''application/json''),
                               (''Accept'', ''application/json'')],
                    reqQs = query,
                    reqJson = True,
                    reqBody = None \<rparr>;
                options =
                  (if length body > 0 \<and> method \<noteq> ''GET'' then options0 \<lparr> reqBody := Some body \<rparr>
                   else options0);
                (answer, s) = request this (server w) options;
                w' = \<lparr> server = s, exchanges = exchanges w @ [(options, answer)] \<rparr>
            in case answer of
                 Inr response \<Rightarrow> (Inr response, w')
               | Inl err \<Rightarrow> (Inl (NodeApiError err), w')))"

text \<open>
  \<^verbatim>\<open>returnData.length >= total\<close>: \<^verbatim>\<open>total\<close> is converted to a Number, and the comparison is
  false when that is \<open>NaN\<close>.
\<close>

fun ToNumber :: "host \<Rightarrow> json \<Rightarrow> jsnum" where
  "ToNumber h (JNum n) = n"
| "ToNumber h JUndefined = NaN"
| "ToNumber h JNull = Fin 0"
| "ToNumber h (JBool b) = Fin (if b then 1 else 0)"
| "ToNumber h (JStr s) = stringToNumber h s"
| "ToNumber h v = stringToNumber h (toStringOther h v)"

fun geNum :: "nat \<Rightarrow> jsnum \<Rightarrow> bool" where
  "geNum n NaN = False"
| "geNum n (Fin q) = (q \<le> of_nat n)"
| "geNum n PosInf = False"
| "geNum n NegInf = True"

definition maxIterations :: nat where
  "maxIterations = 1000"

definition limit :: nat where
  "limit = 100"

text \<open>\<^verbatim>\<open>meta?.total\<close>.\<close>

definition metaTotal :: "json \<Rightarrow> json" where
  "metaTotal meta = (case meta of JObj mp \<Rightarrow> getProp mp ''total'' | _ \<Rightarrow> JUndefined)"

text \<open>The test that leaves the loop: \<^verbatim>\<open>!total || returnData.length >= total\<close>.\<close>

definition stops :: "host \<Rightarrow> json \<Rightarrow> nat \<Rightarrow> bool" where
  "stops h total' len = (\<not> truthy total' \<or> geNum len (ToNumber h total'))"

text \<open>
  The \<^verbatim>\<open>for\<close> loop of \<open>attentiveApiRequestAllItems\<close>, with its variables \<^verbatim>\<open>iteration\<close>,
  \<^verbatim>\<open>offset\<close> and \<^verbatim>\<open>returnData\<close>, and with \<^verbatim>\<open>query\<close>, the caller's object, which the loop
  writes to. It yields what the function returns or throws, the caller's object as the call
  leaves it, and the world.
\<close>

function allItemsLoop ::
  "host \<Rightarrow> 's IExecuteFunctions \<Rightarrow> string \<Rightarrow> string \<Rightarrow> IDataObject \<Rightarrow> string
     \<Rightarrow> nat \<Rightarrow> nat \<Rightarrow> json list \<Rightarrow> IDataObject \<Rightarrow> 's world
     \<Rightarrow> (error + json list) \<times> IDataObject \<times> 's world" where
  "allItemsLoop h this method endpoint body dataKey iteration offset returnData query w =
     (if iteration < maxIterations then
        (let query' = setProp query ''offset'' (JNum (Fin (of_nat offset)));
             (answer, w') = attentiveApiRequest h this method endpoint body query' w
         in case answer of
              Inl e \<Rightarrow> (Inl e, query', w')
            | Inr responseData \<Rightarrow>
                (case propertiesOf h responseData of
                   Inl e \<Rightarrow> (Inl e, query', w')
                 | Inr response \<Rightarrow>
                     (let items = getProp response dataKey;
                          returnData' =
                            (case items of JArr xs \<Rightarrow> returnData @ xs | _ \<Rightarrow> returnData);
                          total' = metaTotal (getProp response ''meta'')
                      in if stops h total' (length returnData') then (Inr returnData', query', w')
                         else allItemsLoop h this method endpoint body dataKey
                                (Suc iteration) (offset + limit) returnData' query' w')))
      else (Inr returnData, query, w))"
  by pat_completeness auto
termination
  by (relation "measure (\<lambda>(h, this, method, endpoint, body, dataKey, iteration, rest).
                           maxIterations - iteration)") auto

declare allItemsLoop.simps [simp del]

definition attentiveApiRequestAllItems ::
  "host \<Rightarrow> 's IExecuteFunctions \<Rightarrow> string \<Rightarrow> string \<Rightarrow> IDataObject \<Rightarrow> IDataObject \<Rightarrow> string \<Rightarrow> 's world
     \<Rightarrow> (error + json list) \<times> IDataObject \<times> 's world" where
  "attentiveApiRequestAllItems h this method endpoint body query dataKey w =
     allItemsLoop h this method endpoint body dataKey 0 0 []
       (setProp query ''limit'' (JNum (Fin (of_nat limit)))) w"

text \<open>
  \<open>handleApiError\<close> has the return type \<^verbatim>\<open>never\<close>: it can only throw. The \<^verbatim>\<open>switch\<close> compares
  with \<^verbatim>\<open>===\<close>, so only the Number matches a case.
\<close>

definition messageText :: "host \<Rightarrow> json \<Rightarrow> string" where
  "messageText h v = (case v of JStr s \<Rightarrow> s | _ \<Rightarrow> operationErrorMessage h v)"

definition handleApiError :: "host \<Rightarrow> IDataObject \<Rightarrow> error + 'a" where
  "handleApiError h errorData =
     (let statusCode = getProp errorData ''statusCode'';
          message = getProp errorData ''message'';
          errorMessage = orElse message (JStr ''Unknown error occurred'')
      in Inl (NodeOperationError
           (if statusCode = JNum (Fin 400) then ''Bad Request: '' @ ToString h errorMessage
            else if statusCode = JNum (Fin 401) then ''Unauthorized: Invalid API key''
            else if statusCode = JNum (Fin 403) then ''Forbidden: Insufficient permissions''
            else if statusCode = JNum (Fin 404) then ''Not Found: Resource does not exist''
            else if statusCode = JNum (Fin 429)
              then ''Rate Limited: Too many requests. Please try again later.''
            else if statusCode = JNum (Fin 500)
              then ''Server Error: Attentive API is experiencing issues''
            else messageText h errorMessage)))"

text \<open>
  Reading the recorded answers: what an answer contributes to \<^verbatim>\<open>returnData\<close>, the total
  it declares, and whether the loop can read it at all. \<open>keepsGoing\<close> says of a run of
  answers that the loop went on after each: each was a response that declared a total the
  accumulated length had not reached.
\<close>

definition responseProps :: "json \<Rightarrow> IDataObject" where
  "responseProps r = (case r of JObj ps \<Rightarrow> ps | JArr xs \<Rightarrow> arrayProps xs | _ \<Rightarrow> [])"

definition usable :: "IDataObject + json \<Rightarrow> bool" where
  "usable answer = (case answer of Inl err \<Rightarrow> False | Inr r \<Rightarrow> r \<noteq> JUndefined \<and> r \<noteq> JNull)"

definition pageItems :: "string \<Rightarrow> IDataObject + json \<Rightarrow> json list" where
  "pageItems dataKey answer =
     (case answer of
        Inl err \<Rightarrow> []
      | Inr r \<Rightarrow> (case getProp (responseProps r) dataKey of JArr xs \<Rightarrow> xs | _ \<Rightarrow> []))"

definition pageTotal :: "IDataObject + json \<Rightarrow> json" where
  "pageTotal answer =
     (case answer of
        Inl err \<Rightarrow> JUndefined
      | Inr r \<Rightarrow> metaTotal (getProp (responseProps r) ''meta''))"

fun keepsGoing :: "host \<Rightarrow> string \<Rightarrow> nat \<Rightarrow> (IDataObject + json) list \<Rightarrow> bool" where
  "keepsGoing h dataKey len [] = True"
| "keepsGoing h dataKey len (a # as) =
     (usable a
      \<and> \<not> stops h (pageTotal a) (len + length (pageItems dataKey a))
      \<and> keepsGoing h dataKey (len + length (pageItems dataKey a)) as)"

definition num :: "nat \<Rightarrow> json" where
  "num n = JNum (Fin (of_nat n))"

definition apiKeyOf :: "'s IExecuteFunctions \<Rightarrow> json" where
  "apiKeyOf this = (case credentials this of JObj c \<Rightarrow> getProp c ''apiKey'' | _ \<Rightarrow> JUndefined)"

text \<open>The verdict of a run, given the answers it received (used in the proofs).\<close>

definition outcome ::
  "host \<Rightarrow> string \<Rightarrow> nat \<Rightarrow> json list \<Rightarrow> (IDataObject + json) list \<Rightarrow> error + json list \<Rightarrow> bool" where
  "outcome h dataKey iteration returnData answers res =
     (case res of
        Inr items \<Rightarrow>
          usable (last answers)
          \<and> items = returnData @ concat (map (pageItems dataKey) answers)
          \<and> (if iteration + length answers < maxIterations
               then stops h (pageTotal (last answers)) (length items) else True)
      | Inl e \<Rightarrow>
          (case last answers of
             Inl err \<Rightarrow> e = NodeApiError err
           | Inr r \<Rightarrow> \<not> usable (Inr r) \<and> e = TypeError (typeErrorMessage h)))"

text \<open>
  The backend of the pagination scenario: it holds a list of records, declares its length
  as \<^verbatim>\<open>meta.total\<close> and answers a request with the records from \<^verbatim>\<open>offset\<close> on, at most
  \<^verbatim>\<open>limit\<close> of them, under the key \<open>dataKey\<close>.
\<close>

definition natParam :: "IDataObject \<Rightarrow> string \<Rightarrow> nat" where
  "natParam q key = (case getProp q key of JNum (Fin x) \<Rightarrow> nat \<lfloor>x\<rfloor> | _ \<Rightarrow> 0)"

definition pagedBackend ::
  "string \<Rightarrow> json list \<Rightarrow> 's \<Rightarrow> IRequestOptions \<Rightarrow> (IDataObject + json) \<times> 's" where
  "pagedBackend dataKey records s opts =
     (Inr (JObj [(dataKey,
                  JArr (take (natParam (reqQs opts) ''limit'')
                          (drop (natParam (reqQs opts) ''offset'') records))),
                 (''meta'', JObj [(''total'', num (length records))])]),
      s)"


text \<open>A context in front of that backend, and an empty world, for closed examples.\<close>

definition pagedContext :: "json list \<Rightarrow> unit IExecuteFunctions" where
  "pagedContext records =
     \<lparr> credentials = JObj [(''apiKey'', JStr ''key'')],
       request = pagedBackend ''data'' records \<rparr>"

definition emptyWorld :: "unit world" where
  "emptyWorld = \<lparr> server = (), exchanges = [] \<rparr>"

section \<open>The dispatcher (node)\<close>

text \<open>
  An output item: its \<^verbatim>\<open>json\<close> payload and, when given, the input item it is paired with
  (\<^verbatim>\<open>pairedItem: { item: i }\<close>).
\<close>

record INodeExecutionData =
  json :: IDataObject
  pairedItem :: "nat option"

text \<open>
  The ten resource modules are parameters of the dispatcher: each takes the operation and
  the item index, acts on the world, and returns its result items or throws.
\<close>

type_synonym 'w operation = "string \<Rightarrow> nat \<Rightarrow> 'w \<Rightarrow> (error + INodeExecutionData list) \<times> 'w"

record 'w modules =
  executeSubscriberOperation :: "'w operation"
  executeMessageOperation :: "'w operation"
  executeCustomEventOperation :: "'w operation"
  executeCustomAttributeOperation :: "'w operation"
  executeEcommerceOperation :: "'w operation"
  executeSegmentOperation :: "'w operation"
  executeJourneyOperation :: "'w operation"
  executeSignUpUnitOperation :: "'w operation"
  executeKeywordOperation :: "'w operation"
  executeWebhookOperation :: "'w operation"

text \<open>\<^verbatim>\<open>(error as Error).message\<close>.\<close>

fun errorMessage :: "host \<Rightarrow> error \<Rightarrow> string" where
  "errorMessage h (NodeOperationError m) = m"
| "errorMessage h (NodeApiError raw) = nodeApiErrorMessage h raw"
| "errorMessage h (Error m) = m"
| "errorMessage h (RangeError m) = m"
| "errorMessage h (TypeError m) = m"

text \<open>The \<^verbatim>\<open>switch (resource)\<close> inside the \<^verbatim>\<open>try\<close> block.\<close>

definition dispatch :: "'w modules \<Rightarrow> string \<Rightarrow> 'w operation" where
  "dispatch ms resource operation i w =
     (if resource = ''subscriber'' then executeSubscriberOperation ms operation i w
      else if resource = ''message'' then executeMessageOperation ms operation i w
      else if resource = ''customEvent'' then executeCustomEventOperation ms operation i w
      else if resource = ''customAttribute'' then executeCustomAttributeOperation ms operation i w
      else if resource = ''ecommerce'' then executeEcommerceOperation ms operation i w
      else if resource = ''segment'' then executeSegmentOperation ms operation i w
      else if resource = ''journey'' then executeJourneyOperation ms operation i w
      else if resource = ''signUpUnit'' then executeSignUpUnitOperation ms operation i w
      else if resource = ''keyword'' then executeKeywordOperation ms operation i w
      else if resource = ''webhook'' then executeWebhookOperation ms operation i w
      else (Inl (Error (''Unknown resource: '' @ resource)), w))"

text \<open>The record pushed by the \<^verbatim>\<open>catch\<close> block in continue-on-fail mode.\<close>

definition errorItem :: "host \<Rightarrow> error \<Rightarrow> nat \<Rightarrow> INodeExecutionData" where
  "errorItem h e i = \<lparr> json = [(''error'', JStr (errorMessage h e))], pairedItem = Some i \<rparr>"

text \<open>
  The \<^verbatim>\<open>for\<close> loop of \<open>execute\<close> over the \<open>n\<close> input items, with its variables \<^verbatim>\<open>i\<close> and
  \<^verbatim>\<open>returnData\<close>.
\<close>

function executeLoop ::
  "host \<Rightarrow> 'w modules \<Rightarrow> bool \<Rightarrow> string \<Rightarrow> string \<Rightarrow> nat \<Rightarrow> nat \<Rightarrow> INodeExecutionData list \<Rightarrow> 'w
     \<Rightarrow> (error + INodeExecutionData list) \<times> 'w" where
  "executeLoop h ms continueOnFail resource operation n i returnData w =
     (if i < n then
        (case dispatch ms resource operation i w of
           (Inr result, w') \<Rightarrow>
             executeLoop h ms continueOnFail resource operation n (Suc i) (returnData @ result) w'
         | (Inl e, w') \<Rightarrow>
             if continueOnFail
             then executeLoop h ms continueOnFail resource operation n (Suc i)
                    (returnData @ [errorItem h e i]) w'
             else (Inl e, w'))
      else (Inr returnData, w))"
  by pat_completeness auto
termination
  by (relation "measure (\<lambda>(h, ms, continueOnFail, resource, operation, n, i, rest). n - i)") auto

declare executeLoop.simps [simp del]

text \<open>
  \<open>logLicensingNotice\<close> warns on the console the first time and sets the module's flag;
  the console is not modelled.
\<close>

definition logLicensingNotice :: "bool \<Rightarrow> bool" where
  "logLicensingNotice licensingNoticeLogged = (if \<not> licensingNoticeLogged then True else licensingNoticeLogged)"

text \<open>
  \<open>execute\<close>: \<open>items\<close> is \<^verbatim>\<open>this.getInputData()\<close>, \<open>resource\<close> and \<open>operation\<close> are the node
  parameters read at item 0, \<open>continueOnFail\<close> is \<^verbatim>\<open>this.continueOnFail()\<close>. It returns
  \<^verbatim>\<open>[returnData]\<close> or throws, and leaves the flag and the world behind.
\<close>

definition execute ::
  "host \<Rightarrow> 'w modules \<Rightarrow> bool \<Rightarrow> string \<Rightarrow> string \<Rightarrow> 'i list \<Rightarrow> bool \<Rightarrow> 'w
     \<Rightarrow> (error + INodeExecutionData list list) \<times> bool \<times> 'w" where
  "execute h ms continueOnFail resource operation items licensingNoticeLogged w =
     (case executeLoop h ms continueOnFail resource operation (length items) 0 [] w of
        (Inr returnData, w') \<Rightarrow> (Inr [returnData], logLicensingNotice licensingNoticeLogged, w')
      | (Inl e, w') \<Rightarrow> (Inl e, logLicensingNotice licensingNoticeLogged, w'))"

text \<open>
  The yardstick for the loop: the module run on each of the given items in
  order, each in the world the one before left, whether or not it failed; it yields every
  item's result and the world at the end.
\<close>

fun processAll :: "(nat \<Rightarrow> 'w \<Rightarrow> 'r \<times> 'w) \<Rightarrow> nat list \<Rightarrow> 'w \<Rightarrow> 'r list \<times> 'w" where
  "processAll f [] w = ([], w)"
| "processAll f (i # is) w =
     (case f i w of (r, w') \<Rightarrow> (case processAll f is w' of (rs, w'') \<Rightarrow> (r # rs, w'')))"

definition succeeded :: "error + 'a \<Rightarrow> bool" where
  "succeeded r = (case r of Inl e \<Rightarrow> False | Inr x \<Rightarrow> True)"

definition itemOutput :: "host \<Rightarrow> nat \<Rightarrow> error + INodeExecutionData list \<Rightarrow> INodeExecutionData list" where
  "itemOutput h i r = (case r of Inr result \<Rightarrow> result | Inl e \<Rightarrow> [errorItem h e i])"

text \<open>
  Modules for closed examples: every operation validates the phone number given for the
  item, as the phone-bearing operations do first, and, if that passes, records the
  normalised number in the world (a list) and returns one item.
\<close>

definition phoneOperation :: "string list \<Rightarrow> (string list) operation" where
  "phoneOperation phones operation i w =
     (if i < length phones then
        (case phoneParameter (phones ! i) of
           Inl e \<Rightarrow> (Inl e, w)
         | Inr phone \<Rightarrow>
             (Inr [\<lparr> json = [(''phone'', JStr phone)], pairedItem = None \<rparr>], w @ [phone]))
      else (Inl (Error ''no such item''), w))"

definition phoneModules :: "string list \<Rightarrow> (string list) modules" where
  "phoneModules phones =
     \<lparr> executeSubscriberOperation = phoneOperation phones,
       executeMessageOperation = phoneOperation phones,
       executeCustomEventOperation = phoneOperation phones,
       executeCustomAttributeOperation = phoneOperation phones,
       executeEcommerceOperation = phoneOperation phones,
       executeSegmentOperation = phoneOperation phones,
       executeJourneyOperation = phoneOperation phones,
       executeSignUpUnitOperation = phoneOperation phones,
       executeKeywordOperation = phoneOperation phones,
       executeWebhookOperation = phoneOperation phones \<rparr>"

section \<open>Timestamps (utils)\<close>

text \<open>
  \<^verbatim>\<open>Date\<close> is the runtime's. A time value is a number of milliseconds since the epoch, in
  UTC; an invalid date has none. Two parts of \<^verbatim>\<open>Date\<close> are fixed by the language and written
  out here: \<^verbatim>\<open>toISOString\<close>, and the parsing of the UTC date-time format
  \<^verbatim>\<open>YYYY-MM-DDTHH:mm:ssZ\<close> (with or without \<^verbatim>\<open>.sss\<close>) when every field is in range. On any
  other string \<^verbatim>\<open>Date.parse\<close> is the host's (\<open>dateParseOther\<close>).
\<close>

definition pad2 :: "nat \<Rightarrow> string" where
  "pad2 n = [digitChar (n div 10), digitChar n]"

definition pad3 :: "nat \<Rightarrow> string" where
  "pad3 n = [digitChar (n div 100), digitChar (n div 10), digitChar n]"

definition pad4 :: "nat \<Rightarrow> string" where
  "pad4 n = [digitChar (n div 1000), digitChar (n div 100), digitChar (n div 10), digitChar n]"

definition pad6 :: "nat \<Rightarrow> string" where
  "pad6 n = [digitChar (n div 100000), digitChar (n div 10000), digitChar (n div 1000),
             digitChar (n div 100), digitChar (n div 10), digitChar n]"

text \<open>Days since the epoch of a date of the proleptic Gregorian calendar, and back.\<close>

definition daysFromCivil :: "int \<Rightarrow> int \<Rightarrow> int \<Rightarrow> int" where
  "daysFromCivil y m d =
     (let y' = (if m \<le> 2 then y - 1 else y);
          era = y' div 400;
          yoe = y' - era * 400;
          doy = (153 * (if m > 2 then m - 3 else m + 9) + 2) div 5 + d - 1;
          doe = yoe * 365 + yoe div 4 - yoe div 100 + doy
      in era * 146097 + doe - 719468)"

definition civilFromDays :: "int \<Rightarrow> int \<times> int \<times> int" where
  "civilFromDays z0 =
     (let z = z0 + 719468;
          era = z div 146097;
          doe = z - era * 146097;
          yoe = (doe - doe div 1460 + doe div 36524 - doe div 146096) div 365;
          doy = doe - (365 * yoe + yoe div 4 - yoe div 100);
          mp = (5 * doy + 2) div 153;
          d = doy - (153 * mp + 2) div 5 + 1;
          m = (if mp < 10 then mp + 3 else mp - 9);
          y = yoe + era * 400
      in (if m \<le> 2 then y + 1 else y, m, d))"

definition msPerDay :: int where
  "msPerDay = 86400000"

text \<open>\<^verbatim>\<open>Date.prototype.toISOString\<close> on a valid time value.\<close>

definition isoString :: "int \<Rightarrow> string" where
  "isoString t =
     (let (y, m, d) = civilFromDays (t div msPerDay);
          r = t mod msPerDay;
          year = (if 0 \<le> y \<and> y \<le> 9999 then pad4 (nat y)
                  else (if y < 0 then ''-'' else ''+'') @ pad6 (nat \<bar>y\<bar>))
      in year @ ''-'' @ pad2 (nat m) @ ''-'' @ pad2 (nat d)
         @ ''T'' @ pad2 (nat (r div 3600000)) @ '':'' @ pad2 (nat (r div 60000 mod 60))
         @ '':'' @ pad2 (nat (r div 1000 mod 60)) @ ''.'' @ pad3 (nat (r mod 1000)) @ ''Z'')"

text \<open>\<^verbatim>\<open>toISOString\<close> throws a \<^verbatim>\<open>RangeError\<close> on an invalid date.\<close>

definition toISOString :: "host \<Rightarrow> int option \<Rightarrow> error + string" where
  "toISOString h tv =
     (case tv of
        None \<Rightarrow> Inl (RangeError (rangeErrorMessage h))
      | Some t \<Rightarrow> Inr (isoString t))"

definition isLeapYear :: "nat \<Rightarrow> bool" where
  "isLeapYear y = (y mod 4 = 0 \<and> (y mod 100 \<noteq> 0 \<or> y mod 400 = 0))"

definition daysInMonth :: "nat \<Rightarrow> nat \<Rightarrow> nat" where
  "daysInMonth y m =
     (if m = 2 then (if isLeapYear y then 29 else 28)
      else if m = 4 \<or> m = 6 \<or> m = 9 \<or> m = 11 then 30
      else 31)"

text \<open>
  The string as a UTC date-time: the fields at their fixed places, then \<^verbatim>\<open>Z\<close> or
  \<^verbatim>\<open>.sss\<close> and \<^verbatim>\<open>Z\<close>; \<open>None\<close> when the string has another shape or a field is out of range.
\<close>

definition utcDateTime :: "string \<Rightarrow> int option" where
  "utcDateTime s =
     (let year = digitsValue (take 4 s);
          month = digitsValue (take 2 (drop 5 s));
          day = digitsValue (take 2 (drop 8 s));
          hour = digitsValue (take 2 (drop 11 s));
          minute = digitsValue (take 2 (drop 14 s));
          second = digitsValue (take 2 (drop 17 s));
          millis = (if length s = 24 then digitsValue (take 3 (drop 20 s)) else 0)
      in if (drop 19 s = ''Z''
               \<or> (length s = 24 \<and> take 1 (drop 19 s) = ''.'' \<and> list_all isDigit (take 3 (drop 20 s))
                   \<and> drop 23 s = ''Z''))
            \<and> list_all isDigit (take 4 s) \<and> take 1 (drop 4 s) = ''-''
            \<and> list_all isDigit (take 2 (drop 5 s)) \<and> take 1 (drop 7 s) = ''-''
            \<and> list_all isDigit (take 2 (drop 8 s)) \<and> take 1 (drop 10 s) = ''T''
            \<and> list_all isDigit (take 2 (drop 11 s)) \<and> take 1 (drop 13 s) = '':''
            \<and> list_all isDigit (take 2 (drop 14 s)) \<and> take 1 (drop 16 s) = '':''
            \<and> list_all isDigit (take 2 (drop 17 s))
            \<and> 1 \<le> month \<and> month \<le> 12 \<and> 1 \<le> day \<and> day \<le> daysInMonth year month
            \<and> hour \<le> 23 \<and> minute \<le> 59 \<and> second \<le> 59
         then Some (daysFromCivil (int year) (int month) (int day) * msPerDay
                    + int hour * 3600000 + int minute * 60000 + int second * 1000 + int millis)
         else None)"

text \<open>A time value outside \<open>\<plusminus> 8.64e15\<close> is no time value (\<^verbatim>\<open>TimeClip\<close>).\<close>

definition timeClip :: "int option \<Rightarrow> int option" where
  "timeClip tv =
     (case tv of
        None \<Rightarrow> None
      | Some t \<Rightarrow> if \<bar>t\<bar> \<le> 8640000000000000 then Some t else None)"

text \<open>\<^verbatim>\<open>new Date(string)\<close>.\<close>

definition newDate :: "host \<Rightarrow> string \<Rightarrow> int option" where
  "newDate h s =
     timeClip (case utcDateTime s of Some t \<Rightarrow> Some t | None \<Rightarrow> dateParseOther h s)"

text \<open>
  \<open>getTimestamp\<close>: the parameter is \<^verbatim>\<open>timestamp?: string\<close>; \<open>now\<close> is the clock's value at the
  call, the time value of \<^verbatim>\<open>new Date()\<close>.
\<close>

definition getTimestamp :: "host \<Rightarrow> int \<Rightarrow> string option \<Rightarrow> error + string" where
  "getTimestamp h now timestamp =
     (case timestamp of
        Some s \<Rightarrow>
          if s \<noteq> [] then toISOString h (newDate h s)
          else toISOString h (Some now)
      | None \<Rightarrow> toISOString h (Some now))"

section \<open>Properties of the phone utilities\<close>

lemma formatPhoneNumber_Nil: "formatPhoneNumber [] = []"
  by (simp add: formatPhoneNumber_def)

lemma formatPhoneNumber_shape:
  "s \<noteq> [] \<Longrightarrow> \<exists>d. formatPhoneNumber s = CHR ''+'' # d \<and> list_all keptChar d"
proof -
  assume ne: "s \<noteq> []"
  let ?d = "filter keptChar s"
  show ?thesis
  proof (cases "startsWith ?d ''+''")
    case True
    then obtain r where r: "?d = CHR ''+'' # r"
      by (cases ?d) (simp_all add: startsWith_def)
    have "list_all keptChar ?d" by (simp add: list_all_iff)
    with r have "list_all keptChar r" by simp
    with ne True r show ?thesis by (simp add: formatPhoneNumber_def)
  next
    case False
    have "list_all keptChar ?d" by (simp add: list_all_iff)
    with ne False show ?thesis by (simp add: formatPhoneNumber_def)
  qed
qed

lemma formatPhoneNumber_fixed:
  "list_all keptChar d \<Longrightarrow> formatPhoneNumber (CHR ''+'' # d) = CHR ''+'' # d"
proof -
  assume "list_all keptChar d"
  then have "filter keptChar d = d" by (simp add: list_all_iff)
  then show ?thesis
    by (simp add: formatPhoneNumber_def keptChar_def startsWith_def)
qed

lemma formatPhoneNumber_twice: "formatPhoneNumber (formatPhoneNumber s) = formatPhoneNumber s"
proof (cases "s = []")
  case True
  then show ?thesis by (simp add: formatPhoneNumber_Nil)
next
  case False
  then obtain d where "formatPhoneNumber s = CHR ''+'' # d" "list_all keptChar d"
    using formatPhoneNumber_shape by blast
  then show ?thesis by (simp add: formatPhoneNumber_fixed)
qed

text \<open>
  C9. \<open>formatPhoneNumber\<close> is idempotent: a number the utility has normalised is left
  unchanged by another pass.
\<close>

theorem formatPhoneNumber_idempotent:
  "formatPhoneNumber (formatPhoneNumber s) = formatPhoneNumber s"
  by (rule formatPhoneNumber_twice)

text \<open>
  C7 (as amended). \<open>formatPhoneNumber\<close> maps the empty string to itself. Otherwise it
  deletes every character that is neither a digit nor a \<open>+\<close> (a \<open>+\<close> is kept wherever it stands,
  not only in front) and puts a \<open>+\<close> in front unless what is left already starts with one: the
  result is a \<open>+\<close> followed by the kept characters less one leading \<open>+\<close>. The four
  documented examples hold.
\<close>

theorem formatPhoneNumber_spec:
  "formatPhoneNumber s =
     (if s = [] then []
      else CHR ''+'' # (let d = filter keptChar s in if startsWith d ''+'' then tl d else d))
   \<and> filter keptChar (formatPhoneNumber s) = formatPhoneNumber s
   \<and> formatPhoneNumber ''19148440001'' = ''+19148440001''
   \<and> formatPhoneNumber ''+19148440001'' = ''+19148440001''
   \<and> formatPhoneNumber ''1-914-844-0001'' = ''+19148440001''
   \<and> formatPhoneNumber [] = []"
proof -
  have a: "formatPhoneNumber s =
     (if s = [] then []
      else CHR ''+'' # (let d = filter keptChar s in if startsWith d ''+'' then tl d else d))"
    by (cases "filter keptChar s") (auto simp add: formatPhoneNumber_def startsWith_def Let_def)
  have b: "filter keptChar (formatPhoneNumber s) = formatPhoneNumber s"
  proof (cases "s = []")
    case True
    then show ?thesis by (simp add: formatPhoneNumber_Nil)
  next
    case False
    then obtain r where r: "formatPhoneNumber s = CHR ''+'' # r" "list_all keptChar r"
      using formatPhoneNumber_shape by blast
    from r(2) have "filter keptChar r = r" by (simp add: list_all_iff)
    with r(1) show ?thesis by (simp add: keptChar_def)
  qed
  have c: "formatPhoneNumber ''19148440001'' = ''+19148440001''"
    by (simp add: formatPhoneNumber_def startsWith_def keptChar_def isDigit_def)
  have d: "formatPhoneNumber ''+19148440001'' = ''+19148440001''"
    by (simp add: formatPhoneNumber_def startsWith_def keptChar_def isDigit_def)
  have e: "formatPhoneNumber ''1-914-844-0001'' = ''+19148440001''"
    by (simp add: formatPhoneNumber_def startsWith_def keptChar_def isDigit_def)
  have f: "formatPhoneNumber [] = []"
    by (simp add: formatPhoneNumber_def)
  from a b c d e f show ?thesis by blast
qed

text \<open>
  C7 as stated fails: a \<open>+\<close> that is not leading is not stripped, and a \<open>+\<close> is prefixed
  although one is present after stripping.
\<close>

theorem formatPhoneNumber_interior_plus:
  "formatPhoneNumber ''1+2'' = ''+1+2''
   \<and> CHR ''+'' \<in> set (tl (formatPhoneNumber ''1+2''))
   \<and> CHR ''+'' \<in> set (filter keptChar ''1+2'')"
  by (simp add: formatPhoneNumber_def startsWith_def keptChar_def isDigit_def)

text \<open>
  C3 (as amended). The phone gate of an operation normalises the parameter and raises exactly
  when the normalised form is not E.164; otherwise it raises nothing and yields the
  normalised form. The message echoes the string handed to \<open>validatePhoneNumber\<close>, and
  the operations hand it the normalised form, so that is what the message shows.
\<close>

theorem phoneParameter_spec:
  "phoneParameter raw =
     (if isValidE164 (formatPhoneNumber raw) then Inr (formatPhoneNumber raw)
      else Inl (NodeOperationError (invalidPhoneMessage (formatPhoneNumber raw))))
   \<and> validatePhoneNumber p =
     (if isValidE164 (formatPhoneNumber p) then Inr ()
      else Inl (NodeOperationError (invalidPhoneMessage p)))"
  by (simp add: phoneParameter_def validatePhoneNumber_def formatPhoneNumber_twice Let_def)

text \<open>
  C3 as stated fails: for the parameter \<^verbatim>\<open>0044 20 7183 8750\<close> the message names
  \<^verbatim>\<open>+00442071838750\<close>, the normalised form, and not the raw input.
\<close>

theorem phoneParameter_echoes_normalised:
  \<open>phoneParameter ''0044 20 7183 8750'' =
     Inl (NodeOperationError (''Invalid phone number format: "+00442071838750". ''
            @ ''Phone numbers must be in E.164 format (e.g., +19148440001).''))
   \<and> phoneParameter ''0044 20 7183 8750'' \<noteq>
     Inl (NodeOperationError (''Invalid phone number format: "0044 20 7183 8750". ''
            @ ''Phone numbers must be in E.164 format (e.g., +19148440001).''))\<close>
  by (simp add: phoneParameter_def validatePhoneNumber_def formatPhoneNumber_def
      isValidE164_def invalidPhoneMessage_def startsWith_def keptChar_def isDigit_def)

section \<open>Properties of cleanObject\<close>

lemma cleanObject_fold:
  "cleanObject obj =
     fold (\<lambda>(key, value) cleaned.
             case keptValue value of None \<Rightarrow> cleaned | Some v \<Rightarrow> assignProp cleaned key v) obj []"
proof -
  have "(\<lambda>(key, value) cleaned.
             if value \<noteq> JUndefined \<and> value \<noteq> JNull \<and> value \<noteq> JStr [] then
               (if typeofObject value \<and> \<not> isArray value then
                  (case value of
                     JObj nested \<Rightarrow>
                       (let cleanedNested = cleanObject nested
                        in if length cleanedNested > 0
                           then assignProp cleaned key (JObj cleanedNested)
                           else cleaned)
                   | _ \<Rightarrow> cleaned)
                else if isArray value \<and> (case value of JArr xs \<Rightarrow> length xs > 0 | _ \<Rightarrow> False)
                  then assignProp cleaned key value
                else if \<not> isArray value then assignProp cleaned key value
                else cleaned)
             else cleaned)
      = (\<lambda>(key, value) cleaned.
             case keptValue value of None \<Rightarrow> cleaned | Some v \<Rightarrow> assignProp cleaned key v)"
    by (rule ext, rule ext)
      (auto simp add: keptValue_def typeofObject_def isArray_def Let_def
        split: json.splits prod.splits)
  then show ?thesis
    by (subst cleanObject.simps) simp
qed

lemma fold_assignProp_lookup:
  "distinct (map fst obj) \<Longrightarrow>
     map_of (fold (\<lambda>(key, value) cleaned.
                    case f value of None \<Rightarrow> cleaned | Some v \<Rightarrow> assignProp cleaned key v) obj acc) k
     = (if k = ''__proto__'' then map_of acc k
        else (case map_of obj k of
                None \<Rightarrow> map_of acc k
              | Some value \<Rightarrow> (case f value of None \<Rightarrow> map_of acc k | Some v \<Rightarrow> Some v)))"
proof (induction obj arbitrary: acc)
  case Nil
  then show ?case by simp
next
  case (Cons p obj)
  obtain k0 v0 where p: "p = (k0, v0)" by (cases p)
  from Cons.prems p have d: "distinct (map fst obj)" and nk: "map_of obj k0 = None"
    by (auto simp add: map_of_eq_None_iff)
  show ?case
    using Cons.IH [OF d] nk p
    by (auto simp add: assignProp_def setProp_def update_conv' split: option.splits)
qed

lemma cleanObject_lookup:
  "distinct (map fst obj) \<Longrightarrow>
     map_of (cleanObject obj) k =
       (if k = ''__proto__'' then None
        else (case map_of obj k of None \<Rightarrow> None | Some value \<Rightarrow> keptValue value))"
  by (simp add: cleanObject_fold fold_assignProp_lookup split: option.splits)

text \<open>
  Under every key but \<^verbatim>\<open>__proto__\<close> the cleaned object holds what the input (an object: its
  keys are distinct) holds, except that an entry is gone when its value is \<^verbatim>\<open>undefined\<close>,
  \<^verbatim>\<open>null\<close> or the empty string; a nested object is cleaned recursively and gone when nothing
  of it is left; an array is kept verbatim when non-empty and gone when empty; numbers and
  booleans, \<open>0\<close> and \<open>false\<close> among them, are kept. The documented examples hold.
\<close>

lemma cleanObject_entries:
  "(distinct (map fst obj) \<and> k \<noteq> ''__proto__'' \<longrightarrow>
      map_of (cleanObject obj) k =
        (case map_of obj k of
           None \<Rightarrow> None
         | Some JUndefined \<Rightarrow> None
         | Some JNull \<Rightarrow> None
         | Some (JStr s) \<Rightarrow> if s = [] then None else Some (JStr s)
         | Some (JObj nested) \<Rightarrow>
             if cleanObject nested = [] then None else Some (JObj (cleanObject nested))
         | Some (JArr xs) \<Rightarrow> if xs = [] then None else Some (JArr xs)
         | Some (JBool b) \<Rightarrow> Some (JBool b)
         | Some (JNum n) \<Rightarrow> Some (JNum n)))
   \<and> cleanObject [(''a'', JStr ''v''), (''b'', JUndefined), (''c'', JNull), (''d'', JStr [])]
       = [(''a'', JStr ''v'')]
   \<and> cleanObject [(''a'', JStr ''value''), (''b'', JNum (Fin 0)), (''c'', JBool False),
                   (''d'', JArr [])]
       = [(''a'', JStr ''value''), (''b'', JNum (Fin 0)), (''c'', JBool False)]
   \<and> cleanObject [(''a'', JStr ''value''), (''nested'', JObj [(''b'', JUndefined)])]
       = [(''a'', JStr ''value'')]"
proof -
  have general: "distinct (map fst obj) \<and> k \<noteq> ''__proto__'' \<longrightarrow>
      map_of (cleanObject obj) k =
        (case map_of obj k of
           None \<Rightarrow> None
         | Some JUndefined \<Rightarrow> None
         | Some JNull \<Rightarrow> None
         | Some (JStr s) \<Rightarrow> if s = [] then None else Some (JStr s)
         | Some (JObj nested) \<Rightarrow>
             if cleanObject nested = [] then None else Some (JObj (cleanObject nested))
         | Some (JArr xs) \<Rightarrow> if xs = [] then None else Some (JArr xs)
         | Some (JBool b) \<Rightarrow> Some (JBool b)
         | Some (JNum n) \<Rightarrow> Some (JNum n))"
    by (simp add: cleanObject_lookup keptValue_def split: option.splits json.splits)
  have ex1: "cleanObject [(''a'', JStr ''v''), (''b'', JUndefined), (''c'', JNull), (''d'', JStr [])]
       = [(''a'', JStr ''v'')]"
    by (simp add: cleanObject_fold keptValue_def assignProp_def setProp_def)
  have ex2: "cleanObject [(''a'', JStr ''value''), (''b'', JNum (Fin 0)), (''c'', JBool False),
                   (''d'', JArr [])]
       = [(''a'', JStr ''value''), (''b'', JNum (Fin 0)), (''c'', JBool False)]"
    by (simp add: cleanObject_fold keptValue_def assignProp_def setProp_def)
  have ex3: "cleanObject [(''a'', JStr ''value''), (''nested'', JObj [(''b'', JUndefined)])]
       = [(''a'', JStr ''value'')]"
    by (simp add: cleanObject_fold keptValue_def assignProp_def setProp_def)
  from general ex1 ex2 ex3 show ?thesis by blast
qed

text \<open>
  C5. The code does not keep every value that is not empty: an entry under the key
  \<^verbatim>\<open>__proto__\<close> is lost whatever its value, \<open>0\<close> included, because assigning it to the fresh
  object sets no property. The body of a subscription whose external identifier is keyed
  \<^verbatim>\<open>__proto__\<close> loses its \<^verbatim>\<open>externalIdentifiers\<close> altogether: the nested object is cleaned to
  nothing and dropped.
\<close>

theorem cleanObject_proto_dropped:
  "cleanObject [(''__proto__'', JNum (Fin 0)), (''b'', JStr ''y'')] = [(''b'', JStr ''y'')]
   \<and> cleanObject [(''user'', JObj [(''phone'', JStr ''+19148440001'')]),
                   (''signUpSourceId'', JStr ''src-1''),
                   (''externalIdentifiers'', JObj [(''__proto__'', JStr ''crm-42'')])]
       = [(''user'', JObj [(''phone'', JStr ''+19148440001'')]),
          (''signUpSourceId'', JStr ''src-1'')]"
  by (simp add: cleanObject_fold keptValue_def assignProp_def setProp_def)

section \<open>Properties of parseProductItems\<close>

lemma productItemsLoop_objects:
  "productItemsLoop h (map JObj raws) items = Inr (items @ map (productItem h) raws)"
  by (induction raws arbitrary: items) simp_all

lemma parseProductItems_objects:
  "getProp inp ''items'' = JArr (map JObj raws) \<Longrightarrow>
     parseProductItems h (JObj inp) = Inr (map (productItem h) raws)"
  by (simp add: parseProductItems_def productItemsLoop_objects)

lemma productItem_price:
  "getProp (productItem h item) ''price'' =
     JObj [(''value'', JNum (orNum (parseFloat (ToString h (getProp item ''price''))) (Fin 0))),
           (''currency'', orElse (getProp item ''currency'') (JStr ''USD''))]"
  by (simp add: productItem_def Let_def setProp_def getProp_def update_conv')

lemma productItem_quantity:
  "getProp (productItem h item) ''quantity'' =
     JNum (orNum (parseInt10 (ToString h (getProp item ''quantity''))) (Fin 1))"
  by (simp add: productItem_def Let_def setProp_def getProp_def update_conv')

lemma productItem_category:
  "getProp (productItem h item) ''category'' =
     (if truthy (getProp item ''category'')
      then (if isArray (getProp item ''category'') then getProp item ''category''
            else JArr [getProp item ''category''])
      else JUndefined)"
  by (simp add: productItem_def Let_def setProp_def getProp_def update_conv')

lemma orNum_zero: "orNum x (Fin 0) = (case x of NaN \<Rightarrow> Fin 0 | _ \<Rightarrow> x)"
  by (cases x) (simp_all add: orNum_def)

lemma orNum_one: "orNum x (Fin 1) = (if x = NaN \<or> x = Fin 0 then Fin 1 else x)"
  by (cases x) (simp_all add: orNum_def)

lemma parseFloat_2999: "parseFloat ''29.99'' = Fin (2999 / 100)"
  by (simp add: parseFloat_def startsWith_def isWhiteSpace_def isDigit_def digitsValue_def
      exponentPart_def scale10_def)

lemma parseInt10_2: "parseInt10 ''2'' = Fin 2"
  by (simp add: parseInt10_def startsWith_def isWhiteSpace_def isDigit_def digitsValue_def)

lemma parseInt10_0: "parseInt10 ''0'' = Fin 0"
  by (simp add: parseInt10_def startsWith_def isWhiteSpace_def isDigit_def digitsValue_def)

text \<open>
  C6 (as amended). An array of raw items (objects) is mapped, in order, to one line item
  each. The price value is the price parsed as a floating-point number, \<open>0\<close> when the parse
  fails. The quantity is the quantity parsed as an integer, and \<open>1\<close> when the parse fails or
  gives \<open>0\<close>. A category that is given (truthy) is kept when it is an array and wrapped in a
  one-element array otherwise; a category that is missing or empty gives no category. The
  documented example yields price \<open>{value: 29.99, currency: "USD"}\<close> and quantity \<open>2\<close>.
\<close>

theorem parseProductItems_spec:
  "(getProp inp ''items'' = JArr (map JObj raws) \<longrightarrow>
      parseProductItems h (JObj inp) = Inr (map (productItem h) raws))
   \<and> getProp (productItem h item) ''price'' =
       JObj [(''value'',
                JNum (case parseFloat (ToString h (getProp item ''price'')) of
                        NaN \<Rightarrow> Fin 0 | Fin q \<Rightarrow> Fin q | PosInf \<Rightarrow> PosInf | NegInf \<Rightarrow> NegInf)),
             (''currency'',
                if truthy (getProp item ''currency'') then getProp item ''currency''
                else JStr ''USD'')]
   \<and> getProp (productItem h item) ''quantity'' =
       JNum (if parseInt10 (ToString h (getProp item ''quantity'')) = NaN
                \<or> parseInt10 (ToString h (getProp item ''quantity'')) = Fin 0
             then Fin 1
             else parseInt10 (ToString h (getProp item ''quantity'')))
   \<and> getProp (productItem h item) ''category'' =
       (if truthy (getProp item ''category'')
        then (if isArray (getProp item ''category'') then getProp item ''category''
              else JArr [getProp item ''category''])
        else JUndefined)
   \<and> parseProductItems h
         (JObj [(''items'', JArr [JObj [(''productId'', JStr ''SKU123''),
                                        (''name'', JStr ''Test Product''),
                                        (''price'', JStr ''29.99''),
                                        (''currency'', JStr ''USD''),
                                        (''quantity'', JStr ''2'')]])])
       = Inr [[(''productId'', JStr ''SKU123''),
               (''name'', JStr ''Test Product''),
               (''price'', JObj [(''value'', JNum (Fin (2999 / 100))),
                                 (''currency'', JStr ''USD'')]),
               (''quantity'', JNum (Fin 2))]]"
proof -
  have a: "getProp inp ''items'' = JArr (map JObj raws) \<longrightarrow>
      parseProductItems h (JObj inp) = Inr (map (productItem h) raws)"
    by (simp add: parseProductItems_objects)
  have b: "getProp (productItem h item) ''price'' =
       JObj [(''value'',
                JNum (case parseFloat (ToString h (getProp item ''price'')) of
                        NaN \<Rightarrow> Fin 0 | Fin q \<Rightarrow> Fin q | PosInf \<Rightarrow> PosInf | NegInf \<Rightarrow> NegInf)),
             (''currency'',
                if truthy (getProp item ''currency'') then getProp item ''currency''
                else JStr ''USD'')]"
    by (simp add: productItem_price orNum_zero orElse_def split: jsnum.splits)
  have c: "getProp (productItem h item) ''quantity'' =
       JNum (if parseInt10 (ToString h (getProp item ''quantity'')) = NaN
                \<or> parseInt10 (ToString h (getProp item ''quantity'')) = Fin 0
             then Fin 1
             else parseInt10 (ToString h (getProp item ''quantity'')))"
    by (simp only: productItem_quantity orNum_one)
  have d: "getProp (productItem h item) ''category'' =
       (if truthy (getProp item ''category'')
        then (if isArray (getProp item ''category'') then getProp item ''category''
              else JArr [getProp item ''category''])
        else JUndefined)"
    by (rule productItem_category)
  have e: "parseProductItems h
         (JObj [(''items'', JArr [JObj [(''productId'', JStr ''SKU123''),
                                        (''name'', JStr ''Test Product''),
                                        (''price'', JStr ''29.99''),
                                        (''currency'', JStr ''USD''),
                                        (''quantity'', JStr ''2'')]])])
       = Inr [[(''productId'', JStr ''SKU123''),
               (''name'', JStr ''Test Product''),
               (''price'', JObj [(''value'', JNum (Fin (2999 / 100))),
                                 (''currency'', JStr ''USD'')]),
               (''quantity'', JNum (Fin 2))]]"
    by (simp add: parseProductItems_def productItem_def getProp_def Let_def orNum_def
        orElse_def parseFloat_2999 parseInt10_2)
  from a b c d e show ?thesis by blast
qed

text \<open>An input whose \<open>items\<close> is an array of two objects.\<close>

theorem parseProductItems_spec_witness:
  "getProp [(''items'', JArr [JObj [(''price'', JStr ''29.99''), (''quantity'', JStr ''2'')],
                              JObj [(''category'', JStr ''Electronics'')]])] ''items''
     = JArr (map JObj [[(''price'', JStr ''29.99''), (''quantity'', JStr ''2'')],
                       [(''category'', JStr ''Electronics'')]])
   \<and> parseProductItems exampleHost
        (JObj [(''items'', JArr [JObj [(''price'', JStr ''29.99''), (''quantity'', JStr ''2'')],
                                 JObj [(''category'', JStr ''Electronics'')]])])
     = Inr [productItem exampleHost [(''price'', JStr ''29.99''), (''quantity'', JStr ''2'')],
            productItem exampleHost [(''category'', JStr ''Electronics'')]]"
  using parseProductItems_spec
    [of "[(''items'', JArr [JObj [(''price'', JStr ''29.99''), (''quantity'', JStr ''2'')],
                            JObj [(''category'', JStr ''Electronics'')]])]"
        "[[(''price'', JStr ''29.99''), (''quantity'', JStr ''2'')],
          [(''category'', JStr ''Electronics'')]]"
        exampleHost]
  by (simp add: getProp_def)

text \<open>
  C6 as stated fails: the quantity \<^verbatim>\<open>"0"\<close> parses, to \<open>0\<close>, and the line item's quantity
  is \<open>1\<close> all the same; and the bare string \<^verbatim>\<open>""\<close> as category is not wrapped in a list: the
  line item has no category.
\<close>

theorem parseProductItems_quantity_zero:
  "parseInt10 ''0'' = Fin 0
   \<and> parseProductItems exampleHost
        (JObj [(''items'', JArr [JObj [(''productId'', JStr ''SKU123''),
                                       (''name'', JStr ''Test Product''),
                                       (''price'', JStr ''29.99''),
                                       (''currency'', JStr ''USD''),
                                       (''quantity'', JStr ''0''),
                                       (''category'', JStr [])]])])
     = Inr [[(''productId'', JStr ''SKU123''),
             (''name'', JStr ''Test Product''),
             (''price'', JObj [(''value'', JNum (Fin (2999 / 100))),
                               (''currency'', JStr ''USD'')]),
             (''quantity'', JNum (Fin 1))]]"
  by (simp add: parseProductItems_def productItem_def getProp_def Let_def orNum_def
      orElse_def parseFloat_2999 parseInt10_0)

section \<open>Properties of the transport\<close>

lemma attentiveApiRequest_nokey:
  "\<not> truthy (apiKeyOf this) \<Longrightarrow>
     attentiveApiRequest h this method endpoint body query w
       = (Inl (NodeOperationError ''No API key provided''), w)"
  by (simp add: attentiveApiRequest_def apiKeyOf_def)

lemma attentiveApiRequest_key:
  assumes "truthy (apiKeyOf this)"
  shows "\<exists>opts answer s.
           attentiveApiRequest h this method endpoint body query w
             = ((case answer of Inr response \<Rightarrow> Inr response | Inl err \<Rightarrow> Inl (NodeApiError err)),
                \<lparr> server = s, exchanges = exchanges w @ [(opts, answer)] \<rparr>)
           \<and> request this (server w) opts = (answer, s)
           \<and> reqQs opts = query \<and> reqMethod opts = method \<and> reqUri opts = BASE_URL @ endpoint"
  using assms
  by (auto simp add: attentiveApiRequest_def apiKeyOf_def Let_def split: prod.splits sum.splits)

lemma propertiesOf_usable:
  "usable (Inr r) \<Longrightarrow> propertiesOf h r = Inr (responseProps r)"
  by (cases r) (simp_all add: usable_def responseProps_def)

lemma propertiesOf_unusable:
  "\<not> usable (Inr r) \<Longrightarrow> propertiesOf h r = Inl (TypeError (typeErrorMessage h))"
  by (cases r) (simp_all add: usable_def)


lemma allItemsLoop_nokey:
  assumes "\<not> truthy (apiKeyOf this)" "iteration < maxIterations"
  shows "allItemsLoop h this method endpoint body dataKey iteration offset returnData query w
           = (Inl (NodeOperationError ''No API key provided''),
              setProp query ''offset'' (num offset), w)"
  using assms
  by (subst allItemsLoop.simps) (simp add: attentiveApiRequest_nokey num_def)

lemma allItemsLoop_done:
  "\<not> iteration < maxIterations \<Longrightarrow>
     allItemsLoop h this method endpoint body dataKey iteration offset returnData query w
       = (Inr returnData, query, w)"
  by (subst allItemsLoop.simps) simp

lemma allItemsLoop_step:
  assumes "truthy (apiKeyOf this)" "iteration < maxIterations"
  shows "\<exists>opts answer s.
           request this (server w) opts = (answer, s)
           \<and> reqQs opts = setProp query ''offset'' (num offset)
           \<and> reqMethod opts = method \<and> reqUri opts = BASE_URL @ endpoint
           \<and> allItemsLoop h this method endpoint body dataKey iteration offset returnData query w
             = (case answer of
                  Inl err \<Rightarrow>
                    (Inl (NodeApiError err), setProp query ''offset'' (num offset),
                     \<lparr> server = s, exchanges = exchanges w @ [(opts, answer)] \<rparr>)
                | Inr r \<Rightarrow>
                    if \<not> usable answer
                    then (Inl (TypeError (typeErrorMessage h)), setProp query ''offset'' (num offset),
                          \<lparr> server = s, exchanges = exchanges w @ [(opts, answer)] \<rparr>)
                    else if stops h (pageTotal answer)
                              (length (returnData @ pageItems dataKey answer))
                    then (Inr (returnData @ pageItems dataKey answer),
                          setProp query ''offset'' (num offset),
                          \<lparr> server = s, exchanges = exchanges w @ [(opts, answer)] \<rparr>)
                    else allItemsLoop h this method endpoint body dataKey (Suc iteration)
                           (offset + limit) (returnData @ pageItems dataKey answer)
                           (setProp query ''offset'' (num offset))
                           \<lparr> server = s, exchanges = exchanges w @ [(opts, answer)] \<rparr>)"
proof -
  from attentiveApiRequest_key [OF assms(1), of h "method" endpoint body
      "setProp query ''offset'' (num offset)" w]
  obtain opts answer s where
    r: "attentiveApiRequest h this method endpoint body (setProp query ''offset'' (num offset)) w
          = ((case answer of Inr response \<Rightarrow> Inr response | Inl err \<Rightarrow> Inl (NodeApiError err)),
             \<lparr> server = s, exchanges = exchanges w @ [(opts, answer)] \<rparr>)"
    and q: "request this (server w) opts = (answer, s)"
      "reqQs opts = setProp query ''offset'' (num offset)"
      "reqMethod opts = method" "reqUri opts = BASE_URL @ endpoint"
    by blast
  have "allItemsLoop h this method endpoint body dataKey iteration offset returnData query w
             = (case answer of
                  Inl err \<Rightarrow>
                    (Inl (NodeApiError err), setProp query ''offset'' (num offset),
                     \<lparr> server = s, exchanges = exchanges w @ [(opts, answer)] \<rparr>)
                | Inr r \<Rightarrow>
                    if \<not> usable answer
                    then (Inl (TypeError (typeErrorMessage h)), setProp query ''offset'' (num offset),
                          \<lparr> server = s, exchanges = exchanges w @ [(opts, answer)] \<rparr>)
                    else if stops h (pageTotal answer)
                              (length (returnData @ pageItems dataKey answer))
                    then (Inr (returnData @ pageItems dataKey answer),
                          setProp query ''offset'' (num offset),
                          \<lparr> server = s, exchanges = exchanges w @ [(opts, answer)] \<rparr>)
                    else allItemsLoop h this method endpoint body dataKey (Suc iteration)
                           (offset + limit) (returnData @ pageItems dataKey answer)
                           (setProp query ''offset'' (num offset))
                           \<lparr> server = s, exchanges = exchanges w @ [(opts, answer)] \<rparr>)"
  proof (cases answer)
    case (Inl err)
    with r assms(2) show ?thesis
      by (subst allItemsLoop.simps) (simp add: num_def)
  next
    case (Inr resp)
    show ?thesis
    proof (cases "usable (Inr resp)")
      case False
      with r assms(2) Inr show ?thesis
        by (subst allItemsLoop.simps) (simp add: num_def propertiesOf_unusable)
    next
      case True
      have pi: "pageItems dataKey (Inr resp)
                  = (case getProp (responseProps resp) dataKey of JArr xs \<Rightarrow> xs | _ \<Rightarrow> [])"
        by (simp add: pageItems_def)
      have rd: "(case getProp (responseProps resp) dataKey of
                   JArr xs \<Rightarrow> returnData @ xs | _ \<Rightarrow> returnData)
                = returnData @ pageItems dataKey (Inr resp)"
        by (simp add: pi split: json.splits)
      have pt: "pageTotal (Inr resp) = metaTotal (getProp (responseProps resp) ''meta'')"
        by (simp add: pageTotal_def)
      from r assms(2) Inr True show ?thesis
        by (subst allItemsLoop.simps)
          (simp add: num_def propertiesOf_usable rd pt Let_def del: length_append)
    qed
  qed
  with q show ?thesis by blast
qed


lemma setProp_twice: "setProp (setProp q k v) k v' = setProp q k v'"
  by (simp add: setProp_def)

lemma allItemsLoop_run:
  assumes key: "truthy (apiKeyOf this)"
  shows "iteration < maxIterations \<Longrightarrow>
     allItemsLoop h this method endpoint body dataKey iteration offset returnData query w = (res, q', w') \<Longrightarrow>
     \<exists>ex. ex \<noteq> [] \<and> exchanges w' = exchanges w @ ex
       \<and> iteration + length ex \<le> maxIterations
       \<and> map (reqQs \<circ> fst) ex
           = map (\<lambda>i. setProp query ''offset'' (num (offset + limit * i))) [0..<length ex]
       \<and> list_all (\<lambda>opts. reqMethod opts = method \<and> reqUri opts = BASE_URL @ endpoint) (map fst ex)
       \<and> q' = setProp query ''offset'' (num (offset + limit * (length ex - 1)))
       \<and> keepsGoing h dataKey (length returnData) (butlast (map snd ex))
       \<and> outcome h dataKey iteration returnData (map snd ex) res"
proof (induction k \<equiv> "maxIterations - iteration" arbitrary: iteration offset returnData query w)
  case 0
  then show ?case by simp
next
  case (Suc k)
  let ?q1 = "setProp query ''offset'' (num offset)"
  from allItemsLoop_step [OF key Suc.prems(1), of w query offset "method" endpoint h body dataKey returnData]
  obtain opts answer s where
    req: "request this (server w) opts = (answer, s)"
    and qs: "reqQs opts = ?q1"
    and mu: "reqMethod opts = method" "reqUri opts = BASE_URL @ endpoint"
    and step: "allItemsLoop h this method endpoint body dataKey iteration offset returnData query w
             = (case answer of
                  Inl err \<Rightarrow>
                    (Inl (NodeApiError err), ?q1,
                     \<lparr> server = s, exchanges = exchanges w @ [(opts, answer)] \<rparr>)
                | Inr r \<Rightarrow>
                    if \<not> usable answer
                    then (Inl (TypeError (typeErrorMessage h)), ?q1,
                          \<lparr> server = s, exchanges = exchanges w @ [(opts, answer)] \<rparr>)
                    else if stops h (pageTotal answer)
                              (length (returnData @ pageItems dataKey answer))
                    then (Inr (returnData @ pageItems dataKey answer), ?q1,
                          \<lparr> server = s, exchanges = exchanges w @ [(opts, answer)] \<rparr>)
                    else allItemsLoop h this method endpoint body dataKey (Suc iteration)
                           (offset + limit) (returnData @ pageItems dataKey answer) ?q1
                           \<lparr> server = s, exchanges = exchanges w @ [(opts, answer)] \<rparr>)"
    by blast
  let ?w1 = "\<lparr> server = s, exchanges = exchanges w @ [(opts, answer)] \<rparr>"
  let ?rd1 = "returnData @ pageItems dataKey answer"
  have single: "(res, q', w') = (r1, ?q1, ?w1) \<Longrightarrow> outcome h dataKey iteration returnData [answer] r1
      \<Longrightarrow> ?case" for r1
    using Suc.prems(1) qs mu
    by (intro exI [of _ "[(opts, answer)]"]) (simp add: num_def)
  show ?case
  proof (cases answer)
    case (Inl err)
    with step Suc.prems(2) have "(res, q', w') = (Inl (NodeApiError err), ?q1, ?w1)" by simp
    moreover have "outcome h dataKey iteration returnData [answer] (Inl (NodeApiError err))"
      using Inl by (simp add: outcome_def)
    ultimately show ?thesis by (rule single)
  next
    case (Inr r)
    show ?thesis
    proof (cases "usable answer")
      case False
      with Inr step Suc.prems(2)
      have "(res, q', w') = (Inl (TypeError (typeErrorMessage h)), ?q1, ?w1)" by simp
      moreover have "outcome h dataKey iteration returnData [answer] (Inl (TypeError (typeErrorMessage h)))"
        using Inr False by (simp add: outcome_def)
      ultimately show ?thesis by (rule single)
    next
      case True
      show ?thesis
      proof (cases "stops h (pageTotal answer) (length ?rd1)")
        case stop: True
        with Inr True step Suc.prems(2) have "(res, q', w') = (Inr ?rd1, ?q1, ?w1)" by simp
        moreover have "outcome h dataKey iteration returnData [answer] (Inr ?rd1)"
          using True stop by (simp add: outcome_def)
        ultimately show ?thesis by (rule single)
      next
        case goon: False
        with Inr True step Suc.prems(2)
        have rec: "allItemsLoop h this method endpoint body dataKey (Suc iteration)
                     (offset + limit) ?rd1 ?q1 ?w1 = (res, q', w')" by simp
        show ?thesis
        proof (cases "Suc iteration < maxIterations")
          case False
          with rec have "(res, q', w') = (Inr ?rd1, ?q1, ?w1)"
            by (simp add: allItemsLoop_done)
          moreover have "outcome h dataKey iteration returnData [answer] (Inr ?rd1)"
            using True False by (simp add: outcome_def)
          ultimately show ?thesis by (rule single)
        next
          case more: True
          from Suc.hyps(2) have "k = maxIterations - Suc iteration" by simp
          from Suc.hyps(1) [OF this more rec]
          obtain ex where ex: "ex \<noteq> []" "exchanges w' = exchanges ?w1 @ ex"
            "Suc iteration + length ex \<le> maxIterations"
            "map (reqQs \<circ> fst) ex
              = map (\<lambda>i. setProp ?q1 ''offset'' (num (offset + limit + limit * i))) [0..<length ex]"
            "list_all (\<lambda>opts. reqMethod opts = method \<and> reqUri opts = BASE_URL @ endpoint) (map fst ex)"
            "q' = setProp ?q1 ''offset'' (num (offset + limit + limit * (length ex - 1)))"
            "keepsGoing h dataKey (length ?rd1) (butlast (map snd ex))"
            "outcome h dataKey (Suc iteration) ?rd1 (map snd ex) res"
            by blast
          let ?ex = "(opts, answer) # ex"
          have 1: "?ex \<noteq> []" by simp
          have 2: "exchanges w' = exchanges w @ ?ex" using ex(2) by simp
          have 3: "iteration + length ?ex \<le> maxIterations" using ex(3) by simp
          have 4: "map (reqQs \<circ> fst) ?ex
              = map (\<lambda>i. setProp query ''offset'' (num (offset + limit * i))) [0..<length ?ex]"
            using ex(4) qs by (simp add: map_upt_Suc setProp_twice add.assoc del: upt_Suc)
          have 5: "list_all (\<lambda>opts. reqMethod opts = method \<and> reqUri opts = BASE_URL @ endpoint)
                     (map fst ?ex)"
            using ex(5) mu by simp
          from ex(1) obtain n where len: "length ex = Suc n" by (cases ex) simp_all
          have 6: "q' = setProp query ''offset'' (num (offset + limit * (length ?ex - 1)))"
            using ex(6) len by (simp add: setProp_twice add.assoc)
          have 7: "keepsGoing h dataKey (length returnData) (butlast (map snd ?ex))"
            using ex(1) ex(7) True goon by simp
          have 8: "outcome h dataKey iteration returnData (map snd ?ex) res"
            using ex(1) ex(8) by (auto simp add: outcome_def split: sum.splits if_splits)
          from 1 2 3 4 5 6 7 8 show ?thesis by blast
        qed
      qed
    qed
  qed
qed


lemma getProp_setProp: "getProp (setProp q k v) k' = (if k' = k then v else getProp q k')"
  by (simp add: getProp_def setProp_def update_conv')











lemma attentiveApiRequestAllItems_run:
  assumes key: "truthy (apiKeyOf this)"
    and run: "attentiveApiRequestAllItems h this method endpoint body query dataKey w = (res, q', w')"
  shows "\<exists>ex. ex \<noteq> [] \<and> exchanges w' = exchanges w @ ex \<and> length ex \<le> 1000
       \<and> map (reqQs \<circ> fst) ex
           = map (\<lambda>i. setProp (setProp query ''limit'' (num 100)) ''offset'' (num (100 * i)))
               [0..<length ex]
       \<and> list_all (\<lambda>opts. reqMethod opts = method \<and> reqUri opts = BASE_URL @ endpoint) (map fst ex)
       \<and> q' = setProp (setProp query ''limit'' (num 100)) ''offset'' (num (100 * (length ex - 1)))
       \<and> keepsGoing h dataKey 0 (butlast (map snd ex))
       \<and> outcome h dataKey 0 [] (map snd ex) res"
proof -
  have it: "0 < maxIterations" by (simp add: maxIterations_def)
  from run have "allItemsLoop h this method endpoint body dataKey 0 0 []
       (setProp query ''limit'' (num 100)) w = (res, q', w')"
    by (simp add: attentiveApiRequestAllItems_def limit_def num_def)
  from allItemsLoop_run [OF key it this]
  show ?thesis by (simp add: limit_def maxIterations_def)
qed

lemma attentiveApiRequestAllItems_nokey:
  assumes "\<not> truthy (apiKeyOf this)"
  shows "attentiveApiRequestAllItems h this method endpoint body query dataKey w
           = (Inl (NodeOperationError ''No API key provided''),
              setProp (setProp query ''limit'' (num 100)) ''offset'' (num 0), w)"
  using assms
  by (simp add: attentiveApiRequestAllItems_def allItemsLoop_nokey maxIterations_def limit_def
      num_def)






text \<open>
  C10. The caller's query object is written to, not copied. Whatever the call does (return,
  or throw), the object it leaves behind is the caller's with \<open>limit\<close> set to 100 and
  \<open>offset\<close> set to the offset of the last request sent (\<open>0\<close> if none was sent, which happens
  only without an API key); every other key is untouched, and whatever the caller had put
  under \<open>limit\<close> or \<open>offset\<close> is gone: every request carried \<open>limit = 100\<close> and its own offset.
\<close>

theorem attentiveApiRequestAllItems_mutates_query:
  "attentiveApiRequestAllItems h this method endpoint body query dataKey w = (res, q', w') \<longrightarrow>
     (\<exists>ex. exchanges w' = exchanges w @ ex \<and> length ex \<le> 1000
        \<and> (ex = []) = (\<not> truthy (apiKeyOf this))
        \<and> map (reqQs \<circ> fst) ex
            = map (\<lambda>i. setProp (setProp query ''limit'' (num 100)) ''offset'' (num (100 * i)))
                [0..<length ex]
        \<and> q' = setProp (setProp query ''limit'' (num 100)) ''offset'' (num (100 * (length ex - 1)))
        \<and> getProp q' ''limit'' = num 100
        \<and> getProp q' ''offset'' = num (100 * (length ex - 1))
        \<and> (\<forall>key. key \<noteq> ''limit'' \<and> key \<noteq> ''offset'' \<longrightarrow> getProp q' key = getProp query key))"
proof
  assume run: "attentiveApiRequestAllItems h this method endpoint body query dataKey w = (res, q', w')"
  have look: "getProp (setProp (setProp query ''limit'' (num 100)) ''offset'' v) ''limit'' = num 100"
    "getProp (setProp (setProp query ''limit'' (num 100)) ''offset'' v) ''offset'' = v"
    "\<forall>key. key \<noteq> ''limit'' \<and> key \<noteq> ''offset'' \<longrightarrow>
       getProp (setProp (setProp query ''limit'' (num 100)) ''offset'' v) key = getProp query key"
    for v
    by (simp_all add: getProp_setProp)
  show "\<exists>ex. exchanges w' = exchanges w @ ex \<and> length ex \<le> 1000
        \<and> (ex = []) = (\<not> truthy (apiKeyOf this))
        \<and> map (reqQs \<circ> fst) ex
            = map (\<lambda>i. setProp (setProp query ''limit'' (num 100)) ''offset'' (num (100 * i)))
                [0..<length ex]
        \<and> q' = setProp (setProp query ''limit'' (num 100)) ''offset'' (num (100 * (length ex - 1)))
        \<and> getProp q' ''limit'' = num 100
        \<and> getProp q' ''offset'' = num (100 * (length ex - 1))
        \<and> (\<forall>key. key \<noteq> ''limit'' \<and> key \<noteq> ''offset'' \<longrightarrow> getProp q' key = getProp query key)"
  proof (cases "truthy (apiKeyOf this)")
    case True
    from attentiveApiRequestAllItems_run [OF True run]
    obtain ex where ex: "ex \<noteq> []" "exchanges w' = exchanges w @ ex" "length ex \<le> 1000"
      "map (reqQs \<circ> fst) ex
           = map (\<lambda>i. setProp (setProp query ''limit'' (num 100)) ''offset'' (num (100 * i)))
               [0..<length ex]"
      "q' = setProp (setProp query ''limit'' (num 100)) ''offset'' (num (100 * (length ex - 1)))"
      by blast
    from ex True look [of "num (100 * (length ex - 1))"] show ?thesis
      by (intro exI [of _ ex]) simp
  next
    case False
    from attentiveApiRequestAllItems_nokey [OF False, of h "method" endpoint body query dataKey w] run
    have "q' = setProp (setProp query ''limit'' (num 100)) ''offset'' (num 0)" "w' = w"
      by simp_all
    with False look [of "num 0"] show ?thesis
      by (intro exI [of _ "[]"]) simp
  qed
qed

text \<open>
  A caller that had put \<open>limit = 5\<close> and \<open>offset = 7\<close> into the query finds \<open>limit = 100\<close> and
  a multiple of 100 as \<open>offset\<close> there afterwards, and its filter untouched.
\<close>

theorem attentiveApiRequestAllItems_mutates_query_witness:
  "\<exists>res q' w'.
      attentiveApiRequestAllItems exampleHost (pagedContext (map num [0..<250])) ''GET'' ''/journeys'' []
        [(''limit'', num 5), (''offset'', num 7), (''status'', JStr ''active'')] ''data'' emptyWorld
        = (res, q', w')
      \<and> getProp q' ''limit'' = num 100
      \<and> (\<exists>n. getProp q' ''offset'' = num (100 * n))
      \<and> getProp q' ''status'' = JStr ''active''"
proof -
  obtain res q' w' where run:
    "attentiveApiRequestAllItems exampleHost (pagedContext (map num [0..<250])) ''GET''
        ''/journeys'' [] [(''limit'', num 5), (''offset'', num 7), (''status'', JStr ''active'')]
        ''data'' emptyWorld = (res, q', w')"
    using prod_cases3 by blast
  from attentiveApiRequestAllItems_mutates_query
    [of exampleHost "pagedContext (map num [0..<250])" "''GET''" "''/journeys''" "[]"
        "[(''limit'', num 5), (''offset'', num 7), (''status'', JStr ''active'')]"
        "''data''" emptyWorld res q' w'] run
  have "\<exists>ex. exchanges w' = exchanges emptyWorld @ ex \<and> length ex \<le> 1000
        \<and> (ex = []) = (\<not> truthy (apiKeyOf (pagedContext (map num [0..<250]))))
        \<and> map (reqQs \<circ> fst) ex
            = map (\<lambda>i. setProp (setProp
                 [(''limit'', num 5), (''offset'', num 7), (''status'', JStr ''active'')]
                 ''limit'' (num 100)) ''offset'' (num (100 * i)))
                [0..<length ex]
        \<and> q' = setProp (setProp
                 [(''limit'', num 5), (''offset'', num 7), (''status'', JStr ''active'')]
                 ''limit'' (num 100)) ''offset'' (num (100 * (length ex - 1)))
        \<and> getProp q' ''limit'' = num 100
        \<and> getProp q' ''offset'' = num (100 * (length ex - 1))
        \<and> (\<forall>key. key \<noteq> ''limit'' \<and> key \<noteq> ''offset'' \<longrightarrow> getProp q' key
              = getProp [(''limit'', num 5), (''offset'', num 7), (''status'', JStr ''active'')] key)"
    by (rule mp)
  then obtain ex where all:
    "exchanges w' = exchanges emptyWorld @ ex \<and> length ex \<le> 1000
        \<and> (ex = []) = (\<not> truthy (apiKeyOf (pagedContext (map num [0..<250]))))
        \<and> map (reqQs \<circ> fst) ex
            = map (\<lambda>i. setProp (setProp
                 [(''limit'', num 5), (''offset'', num 7), (''status'', JStr ''active'')]
                 ''limit'' (num 100)) ''offset'' (num (100 * i)))
                [0..<length ex]
        \<and> q' = setProp (setProp
                 [(''limit'', num 5), (''offset'', num 7), (''status'', JStr ''active'')]
                 ''limit'' (num 100)) ''offset'' (num (100 * (length ex - 1)))
        \<and> getProp q' ''limit'' = num 100
        \<and> getProp q' ''offset'' = num (100 * (length ex - 1))
        \<and> (\<forall>key. key \<noteq> ''limit'' \<and> key \<noteq> ''offset'' \<longrightarrow> getProp q' key
              = getProp [(''limit'', num 5), (''offset'', num 7), (''status'', JStr ''active'')] key)"
    ..
  from all have a: "getProp q' ''limit'' = num 100"
    by (elim conjE)
  from all have b: "getProp q' ''offset'' = num (100 * (length ex - 1))"
    by (elim conjE)
  from all have c: "\<forall>key. key \<noteq> ''limit'' \<and> key \<noteq> ''offset'' \<longrightarrow>
       getProp q' key
         = getProp [(''limit'', num 5), (''offset'', num 7), (''status'', JStr ''active'')] key"
    by (elim conjE)
  from c have "getProp q' ''status''
         = getProp [(''limit'', num 5), (''offset'', num 7), (''status'', JStr ''active'')] ''status''"
    by simp
  then have d: "getProp q' ''status'' = JStr ''active''" by (simp add: getProp_def)
  from b have e: "\<exists>n. getProp q' ''offset'' = num (100 * n)" by (rule exI)
  from run a d e show ?thesis by blast
qed

section \<open>Properties of handleApiError\<close>

lemma handleApiError_string:
  assumes "getProp e ''message'' = JStr msg"
  shows "(handleApiError h e :: error + 'a) =
     Inl (NodeOperationError
       (if getProp e ''statusCode'' = JNum (Fin 400)
          then ''Bad Request: '' @ (if msg = [] then ''Unknown error occurred'' else msg)
        else if getProp e ''statusCode'' = JNum (Fin 401) then ''Unauthorized: Invalid API key''
        else if getProp e ''statusCode'' = JNum (Fin 403) then ''Forbidden: Insufficient permissions''
        else if getProp e ''statusCode'' = JNum (Fin 404) then ''Not Found: Resource does not exist''
        else if getProp e ''statusCode'' = JNum (Fin 429)
          then ''Rate Limited: Too many requests. Please try again later.''
        else if getProp e ''statusCode'' = JNum (Fin 500)
          then ''Server Error: Attentive API is experiencing issues''
        else (if msg = [] then ''Unknown error occurred'' else msg)))"
  using assms
  by (simp add: handleApiError_def Let_def orElse_def messageText_def)

lemma handleApiError_undefined:
  assumes "getProp e ''message'' = JUndefined"
  shows "(handleApiError h e :: error + 'a) =
     Inl (NodeOperationError
       (if getProp e ''statusCode'' = JNum (Fin 400) then ''Bad Request: Unknown error occurred''
        else if getProp e ''statusCode'' = JNum (Fin 401) then ''Unauthorized: Invalid API key''
        else if getProp e ''statusCode'' = JNum (Fin 403) then ''Forbidden: Insufficient permissions''
        else if getProp e ''statusCode'' = JNum (Fin 404) then ''Not Found: Resource does not exist''
        else if getProp e ''statusCode'' = JNum (Fin 429)
          then ''Rate Limited: Too many requests. Please try again later.''
        else if getProp e ''statusCode'' = JNum (Fin 500)
          then ''Server Error: Attentive API is experiencing issues''
        else ''Unknown error occurred''))"
  using assms
  by (simp add: handleApiError_def Let_def orElse_def messageText_def)

lemma handleApiError_raises: "\<exists>m. (handleApiError h e :: error + 'a) = Inl (NodeOperationError m)"
  by (simp add: handleApiError_def Let_def)

text \<open>
  C4 (as amended). \<open>handleApiError\<close>, the classifier of status codes, always raises and
  never returns a value; what it raises is a \<^verbatim>\<open>NodeOperationError\<close> whose message follows the
  status code: 400 gives \<^verbatim>\<open>Bad Request: \<close> followed by the raw message, 401, 403, 404, 429
  and 500 give fixed texts that open with the names the table gives them, and any other code
  gives the raw message itself, unchanged; an absent or empty raw message counts as
  \<^verbatim>\<open>Unknown error occurred\<close>.
\<close>

theorem handleApiError_spec:
  "(\<exists>m. (handleApiError h e :: error + unit) = Inl (NodeOperationError m))
   \<and> (getProp e ''message'' = JStr msg \<longrightarrow>
        (handleApiError h e :: error + unit) =
          Inl (NodeOperationError
            (if getProp e ''statusCode'' = JNum (Fin 400)
               then ''Bad Request: '' @ (if msg = [] then ''Unknown error occurred'' else msg)
             else if getProp e ''statusCode'' = JNum (Fin 401)
               then ''Unauthorized: Invalid API key''
             else if getProp e ''statusCode'' = JNum (Fin 403)
               then ''Forbidden: Insufficient permissions''
             else if getProp e ''statusCode'' = JNum (Fin 404)
               then ''Not Found: Resource does not exist''
             else if getProp e ''statusCode'' = JNum (Fin 429)
               then ''Rate Limited: Too many requests. Please try again later.''
             else if getProp e ''statusCode'' = JNum (Fin 500)
               then ''Server Error: Attentive API is experiencing issues''
             else (if msg = [] then ''Unknown error occurred'' else msg))))
   \<and> (getProp e ''message'' = JUndefined \<longrightarrow>
        (handleApiError h e :: error + unit) =
          Inl (NodeOperationError
            (if getProp e ''statusCode'' = JNum (Fin 400)
               then ''Bad Request: Unknown error occurred''
             else if getProp e ''statusCode'' = JNum (Fin 401)
               then ''Unauthorized: Invalid API key''
             else if getProp e ''statusCode'' = JNum (Fin 403)
               then ''Forbidden: Insufficient permissions''
             else if getProp e ''statusCode'' = JNum (Fin 404)
               then ''Not Found: Resource does not exist''
             else if getProp e ''statusCode'' = JNum (Fin 429)
               then ''Rate Limited: Too many requests. Please try again later.''
             else if getProp e ''statusCode'' = JNum (Fin 500)
               then ''Server Error: Attentive API is experiencing issues''
             else ''Unknown error occurred'')))"
  using handleApiError_raises [of h e] handleApiError_string [of e msg h]
    handleApiError_undefined [of e h]
  by blast

text \<open>
  An upstream error with status 404 and a message, one with status 418 and a message, which
  is passed through, and one with status 404 and no message.
\<close>

theorem handleApiError_spec_witness:
  "getProp [(''statusCode'', JNum (Fin 404)), (''message'', JStr ''no such segment'')] ''message''
       = JStr ''no such segment''
   \<and> (handleApiError exampleHost
          [(''statusCode'', JNum (Fin 404)), (''message'', JStr ''no such segment'')] :: error + unit)
       = Inl (NodeOperationError ''Not Found: Resource does not exist'')
   \<and> getProp [(''statusCode'', JNum (Fin 418)), (''message'', JStr ''I am a teapot'')] ''message''
       = JStr ''I am a teapot''
   \<and> (handleApiError exampleHost
          [(''statusCode'', JNum (Fin 418)), (''message'', JStr ''I am a teapot'')] :: error + unit)
       = Inl (NodeOperationError ''I am a teapot'')
   \<and> getProp [(''statusCode'', JNum (Fin 404))] ''message'' = JUndefined
   \<and> (handleApiError exampleHost [(''statusCode'', JNum (Fin 404))] :: error + unit)
       = Inl (NodeOperationError ''Not Found: Resource does not exist'')"
proof -
  have m: "getProp [(''statusCode'', JNum (Fin 404)), (''message'', JStr ''no such segment'')]
             ''message'' = JStr ''no such segment''"
    "getProp [(''statusCode'', JNum (Fin 418)), (''message'', JStr ''I am a teapot'')] ''message''
       = JStr ''I am a teapot''"
    "getProp [(''statusCode'', JNum (Fin 404))] ''message'' = JUndefined"
    by (simp_all add: getProp_def)
  have a: "(handleApiError exampleHost
          [(''statusCode'', JNum (Fin 404)), (''message'', JStr ''no such segment'')] :: error + unit)
       = Inl (NodeOperationError ''Not Found: Resource does not exist'')"
    using handleApiError_spec [of exampleHost
        "[(''statusCode'', JNum (Fin 404)), (''message'', JStr ''no such segment'')]"
        "''no such segment''"] m(1)
    by (simp add: getProp_def)
  have b: "(handleApiError exampleHost
          [(''statusCode'', JNum (Fin 418)), (''message'', JStr ''I am a teapot'')] :: error + unit)
       = Inl (NodeOperationError ''I am a teapot'')"
    using handleApiError_spec [of exampleHost
        "[(''statusCode'', JNum (Fin 418)), (''message'', JStr ''I am a teapot'')]"
        "''I am a teapot''"] m(2)
    by (simp add: getProp_def)
  have c: "(handleApiError exampleHost [(''statusCode'', JNum (Fin 404))] :: error + unit)
       = Inl (NodeOperationError ''Not Found: Resource does not exist'')"
    using handleApiError_spec [of exampleHost "[(''statusCode'', JNum (Fin 404))]" "[]"] m(3)
    by (simp add: getProp_def)
  from m a b c show ?thesis by blast
qed

text \<open>
  C4 as stated fails: with a status code that is not in the table and an empty raw message,
  \<open>handleApiError\<close> does not pass the message through unchanged: it raises
  \<^verbatim>\<open>Unknown error occurred\<close>.
\<close>

theorem handleApiError_empty_message:
  "getProp [(''statusCode'', JNum (Fin 418)), (''message'', JStr [])] ''message'' = JStr []
   \<and> (handleApiError exampleHost [(''statusCode'', JNum (Fin 418)), (''message'', JStr [])]
        :: error + unit)
     = Inl (NodeOperationError ''Unknown error occurred'')"
  by (simp add: handleApiError_def getProp_def orElse_def messageText_def Let_def)

section \<open>Properties of the dispatcher\<close>

lemma processAll_length: "processAll f is w = (rs, w') \<Longrightarrow> length rs = length is"
  by (induction "is" arbitrary: w rs) (auto split: prod.splits)

lemma executeLoop_tolerant:
  "processAll (dispatch ms resource operation) [i..<n] w = (rs, w') \<Longrightarrow>
     executeLoop h ms True resource operation n i returnData w
       = (Inr (returnData @ concat (map2 (itemOutput h) [i..<n] rs)), w')"
proof (induction k \<equiv> "n - i" arbitrary: i returnData w rs w')
  case 0
  then show ?case by (subst executeLoop.simps) simp
next
  case (Suc k)
  then have lt: "i < n" and k: "k = n - Suc i" by simp_all
  obtain r w1 where d: "dispatch ms resource operation i w = (r, w1)" by (cases "dispatch ms resource operation i w")
  obtain rs1 w2 where p: "processAll (dispatch ms resource operation) [Suc i..<n] w1 = (rs1, w2)"
    by (cases "processAll (dispatch ms resource operation) [Suc i..<n] w1")
  from Suc.prems lt d p have rs: "rs = r # rs1" and w': "w' = w2"
    by (simp_all add: upt_conv_Cons)
  note ih = Suc.hyps(1) [OF k p]
  show ?case
  proof (cases r)
    case (Inl e)
    with lt d ih [of "returnData @ [errorItem h e i]"] rs w' show ?thesis
      by (subst executeLoop.simps) (simp add: upt_conv_Cons itemOutput_def)
  next
    case (Inr result)
    with lt d ih [of "returnData @ result"] rs w' show ?thesis
      by (subst executeLoop.simps) (simp add: upt_conv_Cons itemOutput_def)
  qed
qed

lemma executeLoop_strict_ok:
  "processAll (dispatch ms resource operation) [i..<n] w = (rs, w') \<Longrightarrow> list_all succeeded rs \<Longrightarrow>
     executeLoop h ms False resource operation n i returnData w
       = (Inr (returnData @ concat (map2 (itemOutput h) [i..<n] rs)), w')"
proof (induction k \<equiv> "n - i" arbitrary: i returnData w rs w')
  case 0
  then show ?case by (subst executeLoop.simps) simp
next
  case (Suc k)
  then have lt: "i < n" and k: "k = n - Suc i" by simp_all
  obtain r w1 where d: "dispatch ms resource operation i w = (r, w1)" by (cases "dispatch ms resource operation i w")
  obtain rs1 w2 where p: "processAll (dispatch ms resource operation) [Suc i..<n] w1 = (rs1, w2)"
    by (cases "processAll (dispatch ms resource operation) [Suc i..<n] w1")
  from Suc.prems(1) lt d p have rs: "rs = r # rs1" and w': "w' = w2"
    by (simp_all add: upt_conv_Cons)
  from Suc.prems(2) rs obtain result where r: "r = Inr result" and all: "list_all succeeded rs1"
    by (cases r) (simp_all add: succeeded_def)
  from lt d Suc.hyps(1) [OF k p all, of "returnData @ result"] rs w' r show ?case
    by (subst executeLoop.simps) (simp add: upt_conv_Cons itemOutput_def)
qed

lemma executeLoop_strict_fail:
  "i \<le> k \<Longrightarrow> k < n \<Longrightarrow>
   processAll (dispatch ms resource operation) [i..<Suc k] w = (rs @ [Inl e], w') \<Longrightarrow>
   list_all succeeded rs \<Longrightarrow>
     executeLoop h ms False resource operation n i returnData w = (Inl e, w')"
proof (induction j \<equiv> "k - i" arbitrary: i returnData w rs w')
  case 0
  then have ik: "i = k" by simp
  obtain r w1 where d: "dispatch ms resource operation k w = (r, w1)" by (cases "dispatch ms resource operation k w")
  from "0.prems"(3) ik d have "rs = []" "r = Inl e" "w1 = w'" by simp_all
  with "0.prems"(2) ik d show ?case
    by (subst executeLoop.simps) simp
next
  case (Suc j)
  then have lt: "i < k" and j: "j = k - Suc i" and le: "Suc i \<le> k" by simp_all
  obtain r w1 where d: "dispatch ms resource operation i w = (r, w1)" by (cases "dispatch ms resource operation i w")
  obtain rs1 w2 where p: "processAll (dispatch ms resource operation) [Suc i..<Suc k] w1 = (rs1, w2)"
    by (cases "processAll (dispatch ms resource operation) [Suc i..<Suc k] w1")
  from Suc.prems(3) lt d p have eq: "rs @ [Inl e] = r # rs1" and w': "w' = w2"
    by (simp_all add: upt_conv_Cons)
  have "rs1 \<noteq> []"
  proof
    assume "rs1 = []"
    with processAll_length [OF p] lt show False by simp
  qed
  with eq obtain rs' where rs: "rs = r # rs'" and rs1: "rs1 = rs' @ [Inl e]"
    by (cases rs) auto
  from Suc.prems(4) rs obtain result where r: "r = Inr result" and all: "list_all succeeded rs'"
    by (cases r) (simp_all add: succeeded_def)
  from p rs1 w' have p': "processAll (dispatch ms resource operation) [Suc i..<Suc k] w1 = (rs' @ [Inl e], w')"
    by simp
  from lt Suc.prems(2) have "i < n" by simp
  with d r Suc.hyps(1) [OF j le Suc.prems(2) p' all, of "returnData @ result"] show ?case
    by (subst executeLoop.simps) simp
qed


text \<open>
  C2. With continue-on-fail enabled, every input item is processed, in order, each in the
  world the one before left, and the output is the concatenation of what each item
  contributes: its result items when it succeeds, and exactly one record when it raises,
  holding the failure message under \<open>error\<close> and paired with the item's index. With the mode
  disabled, the first failure, at item \<open>k\<close>, is what \<open>execute\<close> throws, and the world is left
  as item \<open>k\<close> left it: no later item is processed; when no item fails, the results are
  returned.
\<close>

theorem execute_failures:
  "(processAll (dispatch ms resource operation) [0..<length items] w = (rs, w') \<longrightarrow>
      execute h ms True resource operation items logged w
        = (Inr [concat (map2 (itemOutput h) [0..<length items] rs)], True, w'))
   \<and> itemOutput h i (Inl e)
       = [\<lparr> json = [(''error'', JStr (errorMessage h e))], pairedItem = Some i \<rparr>]
   \<and> itemOutput h i (Inr result) = result
   \<and> (k < length items
        \<and> processAll (dispatch ms resource operation) [0..<Suc k] w = (rs0 @ [Inl e], w0)
        \<and> list_all succeeded rs0 \<longrightarrow>
      execute h ms False resource operation items logged w = (Inl e, True, w0))
   \<and> (processAll (dispatch ms resource operation) [0..<length items] w = (rs, w')
        \<and> list_all succeeded rs \<longrightarrow>
      execute h ms False resource operation items logged w
        = (Inr [concat (map2 (itemOutput h) [0..<length items] rs)], True, w'))"
proof -
  have a: "processAll (dispatch ms resource operation) [0..<length items] w = (rs, w') \<longrightarrow>
      execute h ms True resource operation items logged w
        = (Inr [concat (map2 (itemOutput h) [0..<length items] rs)], True, w')"
    using executeLoop_tolerant [of ms resource operation 0 "length items" w rs w' h "[]"]
    by (simp add: execute_def logLicensingNotice_def)
  have b: "itemOutput h i (Inl e)
       = [\<lparr> json = [(''error'', JStr (errorMessage h e))], pairedItem = Some i \<rparr>]"
    "itemOutput h i (Inr result) = result"
    by (simp_all add: itemOutput_def errorItem_def)
  have c: "k < length items
        \<and> processAll (dispatch ms resource operation) [0..<Suc k] w = (rs0 @ [Inl e], w0)
        \<and> list_all succeeded rs0 \<longrightarrow>
      execute h ms False resource operation items logged w = (Inl e, True, w0)"
    using executeLoop_strict_fail [of 0 k "length items" ms resource operation w rs0 e w0 h "[]"]
    by (simp add: execute_def logLicensingNotice_def)
  have d: "processAll (dispatch ms resource operation) [0..<length items] w = (rs, w')
        \<and> list_all succeeded rs \<longrightarrow>
      execute h ms False resource operation items logged w
        = (Inr [concat (map2 (itemOutput h) [0..<length items] rs)], True, w')"
    using executeLoop_strict_ok [of ms resource operation 0 "length items" w rs w' h "[]"]
    by (simp add: execute_def logLicensingNotice_def)
  from a b c d show ?thesis by blast
qed

lemma phone_examples:
  "phoneParameter ''+19148440001'' = Inr ''+19148440001''"
  "phoneParameter ''abc'' = Inl (NodeOperationError (invalidPhoneMessage ''+''))"
  "phoneParameter ''+442071838750'' = Inr ''+442071838750''"
  by (simp_all add: phoneParameter_def validatePhoneNumber_def formatPhoneNumber_def
      isValidE164_def startsWith_def keptChar_def isDigit_def)

lemma processAll_example:
  "processAll (dispatch (phoneModules [''+19148440001'', ''abc'', ''+442071838750'']) ''subscriber'' ''get'')
     [0..<3] []
   = ([Inr [\<lparr> json = [(''phone'', JStr ''+19148440001'')], pairedItem = None \<rparr>],
       Inl (NodeOperationError (invalidPhoneMessage ''+'')),
       Inr [\<lparr> json = [(''phone'', JStr ''+442071838750'')], pairedItem = None \<rparr>]],
      [''+19148440001'', ''+442071838750''])"
  "processAll (dispatch (phoneModules [''+19148440001'', ''abc'', ''+442071838750'']) ''subscriber'' ''get'')
     [0..<Suc 1] []
   = ([Inr [\<lparr> json = [(''phone'', JStr ''+19148440001'')], pairedItem = None \<rparr>]]
        @ [Inl (NodeOperationError (invalidPhoneMessage ''+''))],
      [''+19148440001''])"
  by (simp_all add: upt_rec dispatch_def phoneModules_def phoneOperation_def phone_examples)

text \<open>
  Three items of which the second fails validation: in continue-on-fail mode the output has
  three entries, the middle one the error record paired with item 1, and both valid numbers
  were sent; with the mode disabled the error is thrown and only the first number was sent.
\<close>

theorem execute_failures_witness:
  "execute exampleHost (phoneModules [''+19148440001'', ''abc'', ''+442071838750''])
      True ''subscriber'' ''get'' [(), (), ()] False []
     = (Inr [[\<lparr> json = [(''phone'', JStr ''+19148440001'')], pairedItem = None \<rparr>,
              \<lparr> json = [(''error'', JStr (invalidPhoneMessage ''+''))], pairedItem = Some 1 \<rparr>,
              \<lparr> json = [(''phone'', JStr ''+442071838750'')], pairedItem = None \<rparr>]],
        True, [''+19148440001'', ''+442071838750''])
   \<and> execute exampleHost (phoneModules [''+19148440001'', ''abc'', ''+442071838750''])
      False ''subscriber'' ''get'' [(), (), ()] False []
     = (Inl (NodeOperationError (invalidPhoneMessage ''+'')), True, [''+19148440001''])
   \<and> execute exampleHost (phoneModules [''+19148440001'', ''+442071838750''])
      False ''subscriber'' ''get'' [(), ()] False []
     = (Inr [[\<lparr> json = [(''phone'', JStr ''+19148440001'')], pairedItem = None \<rparr>,
              \<lparr> json = [(''phone'', JStr ''+442071838750'')], pairedItem = None \<rparr>]],
        True, [''+19148440001'', ''+442071838750''])"
proof -
  let ?ms = "phoneModules [''+19148440001'', ''abc'', ''+442071838750'']"
  let ?items = "[(), (), ()]"
  let ?rs = "[Inr [\<lparr> json = [(''phone'', JStr ''+19148440001'')], pairedItem = None \<rparr>],
       Inl (NodeOperationError (invalidPhoneMessage ''+'')),
       Inr [\<lparr> json = [(''phone'', JStr ''+442071838750'')], pairedItem = None \<rparr>]]"
  have 1: "execute exampleHost ?ms True ''subscriber'' ''get'' ?items False []
     = (Inr [[\<lparr> json = [(''phone'', JStr ''+19148440001'')], pairedItem = None \<rparr>,
              \<lparr> json = [(''error'', JStr (invalidPhoneMessage ''+''))], pairedItem = Some 1 \<rparr>,
              \<lparr> json = [(''phone'', JStr ''+442071838750'')], pairedItem = None \<rparr>]],
        True, [''+19148440001'', ''+442071838750''])"
    using execute_failures [of ?ms "''subscriber''" "''get''" ?items "[]" ?rs
        "[''+19148440001'', ''+442071838750'']" exampleHost False]
      processAll_example(1)
    by (simp add: upt_rec itemOutput_def errorItem_def)
  have 2: "execute exampleHost ?ms False ''subscriber'' ''get'' ?items False []
     = (Inl (NodeOperationError (invalidPhoneMessage ''+'')), True, [''+19148440001''])"
    using execute_failures [of ?ms "''subscriber''" "''get''" ?items "[]" _ _ exampleHost False
        _ "NodeOperationError (invalidPhoneMessage ''+'')" _ 1
        "[Inr [\<lparr> json = [(''phone'', JStr ''+19148440001'')], pairedItem = None \<rparr>]]"
        "[''+19148440001'']"]
      processAll_example(2)
    by (simp add: succeeded_def)
  have p3: "processAll (dispatch (phoneModules [''+19148440001'', ''+442071838750'']) ''subscriber'' ''get'')
     [0..<2] []
   = ([Inr [\<lparr> json = [(''phone'', JStr ''+19148440001'')], pairedItem = None \<rparr>],
       Inr [\<lparr> json = [(''phone'', JStr ''+442071838750'')], pairedItem = None \<rparr>]],
      [''+19148440001'', ''+442071838750''])"
    by (simp add: upt_rec dispatch_def phoneModules_def phoneOperation_def phone_examples)
  have 3: "execute exampleHost (phoneModules [''+19148440001'', ''+442071838750''])
      False ''subscriber'' ''get'' [(), ()] False []
     = (Inr [[\<lparr> json = [(''phone'', JStr ''+19148440001'')], pairedItem = None \<rparr>,
              \<lparr> json = [(''phone'', JStr ''+442071838750'')], pairedItem = None \<rparr>]],
        True, [''+19148440001'', ''+442071838750''])"
    using execute_failures [of "phoneModules [''+19148440001'', ''+442071838750'']"
        "''subscriber''" "''get''" "[(), ()]" "[]"
        "[Inr [\<lparr> json = [(''phone'', JStr ''+19148440001'')], pairedItem = None \<rparr>],
          Inr [\<lparr> json = [(''phone'', JStr ''+442071838750'')], pairedItem = None \<rparr>]]"
        "[''+19148440001'', ''+442071838750'']" exampleHost False]
      p3
    by (simp add: upt_rec itemOutput_def succeeded_def)
  from 1 2 3 show ?thesis by blast
qed

section \<open>Properties of getTimestamp\<close>

lemma digitChar_isDigit: "isDigit (digitChar n)"
proof -
  have "n mod 10 < length ''0123456789''" by simp
  then have "''0123456789'' ! (n mod 10) \<in> set ''0123456789''" by (rule nth_mem)
  then show ?thesis by (simp only: digitChar_def isDigit_def)
qed

lemma pad3_digits: "length (pad3 n) = 3 \<and> list_all isDigit (pad3 n)"
  by (simp add: pad3_def digitChar_isDigit)

lemma isoString_shape:
  "\<exists>p. isoString t = p @ ''.'' @ pad3 (nat (t mod msPerDay mod 1000)) @ ''Z''"
proof -
  obtain y m d where c: "civilFromDays (t div msPerDay) = (y, m, d)"
    by (cases "civilFromDays (t div msPerDay)")
  show ?thesis
    unfolding isoString_def c Let_def prod.case
    by (metis append.assoc)
qed

lemma utcDateTime_example: "utcDateTime ''2024-01-15T10:30:00Z'' = Some 1705314600000"
  by (simp add: utcDateTime_def Let_def isDigit_def digitsValue_def daysInMonth_def
      isLeapYear_def daysFromCivil_def msPerDay_def)

lemma isoString_example: "isoString 1705314600000 = ''2024-01-15T10:30:00.000Z''"
  by code_simp

lemma newDate_example: "newDate h ''2024-01-15T10:30:00Z'' = Some 1705314600000"
  by (simp add: newDate_def utcDateTime_example timeClip_def)

text \<open>
  C8 (as amended). When the input is absent, or is the empty string, \<open>getTimestamp\<close>
  returns the current instant in the shape of \<^verbatim>\<open>toISOString\<close>, which ends in a dot, three
  digits of milliseconds and \<^verbatim>\<open>Z\<close>. A non-empty input that parses as a date is returned in that
  same shape, and \<^verbatim>\<open>2024-01-15T10:30:00Z\<close> gives \<^verbatim>\<open>2024-01-15T10:30:00.000Z\<close>. The call fails
  exactly when the input is non-empty and does not parse, and what it throws is the
  \<^verbatim>\<open>RangeError\<close> of \<^verbatim>\<open>toISOString\<close>.
\<close>

theorem getTimestamp_spec:
  "getTimestamp h now None = Inr (isoString now)
   \<and> getTimestamp h now (Some []) = Inr (isoString now)
   \<and> (s \<noteq> [] \<and> newDate h s = Some t \<longrightarrow> getTimestamp h now (Some s) = Inr (isoString t))
   \<and> (s \<noteq> [] \<and> newDate h s = None \<longrightarrow>
        getTimestamp h now (Some s) = Inl (RangeError (rangeErrorMessage h)))
   \<and> (\<exists>p f. isoString t = p @ ''.'' @ f @ ''Z'' \<and> length f = 3 \<and> list_all isDigit f)
   \<and> newDate h ''2024-01-15T10:30:00Z'' = Some 1705314600000
   \<and> getTimestamp h now (Some ''2024-01-15T10:30:00Z'') = Inr ''2024-01-15T10:30:00.000Z''"
proof -
  have a: "getTimestamp h now None = Inr (isoString now)"
    "getTimestamp h now (Some []) = Inr (isoString now)"
    by (simp_all add: getTimestamp_def toISOString_def)
  have b: "s \<noteq> [] \<and> newDate h s = Some t \<longrightarrow> getTimestamp h now (Some s) = Inr (isoString t)"
    "s \<noteq> [] \<and> newDate h s = None \<longrightarrow>
        getTimestamp h now (Some s) = Inl (RangeError (rangeErrorMessage h))"
    by (simp_all add: getTimestamp_def toISOString_def)
  have c: "\<exists>p f. isoString t = p @ ''.'' @ f @ ''Z'' \<and> length f = 3 \<and> list_all isDigit f"
    using isoString_shape [of t] pad3_digits by blast
  have d: "getTimestamp h now (Some ''2024-01-15T10:30:00Z'') = Inr ''2024-01-15T10:30:00.000Z''"
    by (simp add: getTimestamp_def toISOString_def newDate_example isoString_example)
  from a b c d newDate_example [of h] show ?thesis by blast
qed

text \<open>A non-empty input that parses, and one that does not (the example host parses nothing).\<close>

theorem getTimestamp_spec_witness:
  "''2024-01-15T10:30:00.250Z'' \<noteq> []
   \<and> newDate exampleHost ''2024-01-15T10:30:00.250Z'' = Some 1705314600250
   \<and> getTimestamp exampleHost 0 (Some ''2024-01-15T10:30:00.250Z'')
       = Inr ''2024-01-15T10:30:00.250Z''
   \<and> ''not a date'' \<noteq> []
   \<and> newDate exampleHost ''not a date'' = None
   \<and> getTimestamp exampleHost 0 (Some ''not a date'') = Inl (RangeError ''Invalid time value'')"
proof -
  have p: "newDate exampleHost ''2024-01-15T10:30:00.250Z'' = Some 1705314600250"
    by (simp add: newDate_def timeClip_def utcDateTime_def Let_def isDigit_def digitsValue_def
        daysInMonth_def isLeapYear_def daysFromCivil_def msPerDay_def)
  have q: "newDate exampleHost ''not a date'' = None"
    by (simp add: newDate_def timeClip_def utcDateTime_def Let_def exampleHost_def)
  have i: "isoString 1705314600250 = ''2024-01-15T10:30:00.250Z''"
    by code_simp
  have 1: "getTimestamp exampleHost 0 (Some ''2024-01-15T10:30:00.250Z'')
       = Inr ''2024-01-15T10:30:00.250Z''"
    using getTimestamp_spec [of exampleHost 0 "''2024-01-15T10:30:00.250Z''" 1705314600250] p i
    by simp
  have 2: "getTimestamp exampleHost 0 (Some ''not a date'') = Inl (RangeError ''Invalid time value'')"
    using getTimestamp_spec [of exampleHost 0 "''not a date''"] q
    by (simp add: exampleHost_def)
  from p q 1 2 show ?thesis by simp
qed

text \<open>
  C8 as stated fails: the empty string is present and does not parse as a date (not in the
  UTC format, and not by the example host, as by no engine), yet the call does not fail; it
  returns the current instant. And where the call does fail, on a string that does not
  parse, the error is the runtime's \<^verbatim>\<open>RangeError\<close>, not the \<^verbatim>\<open>NodeOperationError\<close> that a
  failed validation raises.
\<close>

theorem getTimestamp_empty_string:
  "newDate exampleHost [] = None
   \<and> getTimestamp exampleHost 1705314600000 (Some []) = Inr ''2024-01-15T10:30:00.000Z''
   \<and> getTimestamp exampleHost 1705314600000 (Some ''not a date'')
       = Inl (RangeError ''Invalid time value'')"
  by (simp add: newDate_def timeClip_def utcDateTime_def Let_def exampleHost_def
      getTimestamp_def toISOString_def isoString_example)

end
